theory Spec2Isabelle
  imports Main
begin

section \<open>Python values, exceptions and string primitives\<close>

text \<open>
  The client is a Python script. Every \<^verbatim>\<open>raise\<close> of the source, and every exception a
  built-in operation can throw on the values the script handles, is a value of
  \<open>py_error\<close>; a function that can raise returns \<open>py_error + 'a\<close>, with \<open>Inl\<close> the
  exception. \<open>HTTPError\<close> is what \<^verbatim>\<open>response.raise_for_status()\<close> throws (it carries
  the status code), \<open>RequestException\<close> any other failure of \<^verbatim>\<open>requests.post\<close>, and
  \<open>Exception\<close> the plain \<^verbatim>\<open>Exception(message)\<close> the script raises itself.
\<close>

datatype py_error =
    ValueError string
  | KeyError string
  | TypeError
  | AttributeError
  | OverflowError
  | HTTPError int
  | RequestException string
  | JSONDecodeError
  | Exception string

definition bind_r :: "py_error + 'a \<Rightarrow> ('a \<Rightarrow> py_error + 'b) \<Rightarrow> py_error + 'b" where
  "bind_r m f = (case m of Inl e \<Rightarrow> Inl e | Inr x \<Rightarrow> f x)"

text \<open>
  A Python \<^verbatim>\<open>str\<close> is modelled as a HOL \<open>string\<close>, one \<open>char\<close> per character, so the
  model covers the characters with code points below 256. \<^verbatim>\<open>str.lower()\<close> maps the
  upper-case letters of that range (A-Z, and the Latin-1 capitals U+00C0-U+00DE except
  the multiplication sign U+00D7) to the letter 32 code points higher and leaves every
  other character alone; \<^verbatim>\<open>str.strip()\<close> removes the leading and trailing characters
  for which \<^verbatim>\<open>str.isspace()\<close> holds.
\<close>

definition py_lower_char :: "char \<Rightarrow> char" where
  "py_lower_char c =
     (let n = (of_char c :: nat) in
      if (65 \<le> n \<and> n \<le> 90) \<or> (192 \<le> n \<and> n \<le> 214) \<or> (216 \<le> n \<and> n \<le> 222)
      then char_of (n + 32) else c)"

definition py_lower :: "string \<Rightarrow> string" where
  "py_lower s = map py_lower_char s"

definition py_isspace :: "char \<Rightarrow> bool" where
  "py_isspace c = ((of_char c :: nat) \<in> {9, 10, 11, 12, 13, 28, 29, 30, 31, 32, 133, 160})"

definition py_strip :: "string \<Rightarrow> string" where
  "py_strip s = rev (dropWhile py_isspace (rev (dropWhile py_isspace s)))"

fun py_join :: "string \<Rightarrow> string list \<Rightarrow> string" where
  "py_join sep [] = []"
| "py_join sep [x] = x"
| "py_join sep (x # y # ys) = x @ sep @ py_join sep (y # ys)"

text \<open>\<^verbatim>\<open>s.replace("Z", "+00:00")\<close>: every occurrence of the one-character pattern is
  replaced, not only a trailing one.\<close>

definition replace_Z :: "string \<Rightarrow> string" where
  "replace_Z s = concat (map (\<lambda>c. if c = CHR ''Z'' then ''+00:00'' else [c]) s)"

text \<open>The operator \<^verbatim>\<open>q in s\<close> on two strings: \<open>q\<close> occurs in \<open>s\<close> as a contiguous block.\<close>

fun py_contains :: "string \<Rightarrow> string \<Rightarrow> bool" where
  "py_contains q [] = (q = [])"
| "py_contains q (c # cs) = (take (length q) (c # cs) = q \<or> py_contains q cs)"

text \<open>The slice \<^verbatim>\<open>xs[:n]\<close> for an integer \<open>n\<close>: the first \<open>n\<close> elements, and for a negative
  \<open>n\<close> all but the last \<open>-n\<close>.\<close>

definition py_slice_to :: "'a list \<Rightarrow> int \<Rightarrow> 'a list" where
  "py_slice_to xs n = (if 0 \<le> n then take (nat n) xs else take (length xs - nat (- n)) xs)"

text \<open>Decimal digits of a number, as \<^verbatim>\<open>str\<close> prints an \<^verbatim>\<open>int\<close>.\<close>

fun show_nat :: "nat \<Rightarrow> string" where
  "show_nat n =
     (if n < 10 then [char_of (48 + n)] else show_nat (n div 10) @ [char_of (48 + n mod 10)])"

declare show_nat.simps [simp del]

definition show_int :: "int \<Rightarrow> string" where
  "show_int i = (if i < 0 then CHR ''-'' # show_nat (nat (- i)) else show_nat (nat i))"

subsection \<open>Decoded JSON\<close>

text \<open>
  What \<^verbatim>\<open>response.json()\<close> returns: \<^verbatim>\<open>None\<close>, a \<^verbatim>\<open>bool\<close>, an \<^verbatim>\<open>int\<close>, a \<^verbatim>\<open>float\<close>
  (a finite double, kept as mantissa and binary exponent; no function of the script
  computes with one), a \<^verbatim>\<open>str\<close>, a \<^verbatim>\<open>list\<close> or a \<^verbatim>\<open>dict\<close> with string keys. A dict is an
  association list in insertion order, looked up with \<open>map_of\<close>.
\<close>

datatype json =
    JNull
  | JBool bool
  | JInt int
  | JFloat int int
  | JStr string
  | JArr "json list"
  | JObj "(string \<times> json) list"

text \<open>Truth value of a JSON value in a condition (\<^verbatim>\<open>if x:\<close>, \<^verbatim>\<open>not x\<close>, \<^verbatim>\<open>x or y\<close>).\<close>

fun py_truthy :: "json \<Rightarrow> bool" where
  "py_truthy JNull = False"
| "py_truthy (JBool b) = b"
| "py_truthy (JInt i) = (i \<noteq> 0)"
| "py_truthy (JFloat m e) = (m \<noteq> 0)"
| "py_truthy (JStr s) = (s \<noteq> [])"
| "py_truthy (JArr xs) = (xs \<noteq> [])"
| "py_truthy (JObj kvs) = (kvs \<noteq> [])"

text \<open>\<^verbatim>\<open>d.get(k, default)\<close>: only a dict has the method.\<close>

fun py_get :: "json \<Rightarrow> string \<Rightarrow> json \<Rightarrow> py_error + json" where
  "py_get (JObj kvs) k dflt = Inr (case map_of kvs k of Some v \<Rightarrow> v | None \<Rightarrow> dflt)"
| "py_get v k dflt = Inl AttributeError"

text \<open>\<^verbatim>\<open>d[k]\<close> with a string key: \<^verbatim>\<open>KeyError\<close> on a dict without the key, \<^verbatim>\<open>TypeError\<close> on
  every other value (a list or a string wants an integer index, the rest are not
  subscriptable).\<close>

fun py_getitem :: "json \<Rightarrow> string \<Rightarrow> py_error + json" where
  "py_getitem (JObj kvs) k = (case map_of kvs k of Some v \<Rightarrow> Inr v | None \<Rightarrow> Inl (KeyError k))"
| "py_getitem v k = Inl TypeError"

text \<open>\<^verbatim>\<open>k in d\<close> for a string \<open>k\<close>: key membership on a dict, element membership on a
  list, substring on a string, \<^verbatim>\<open>TypeError\<close> on the values that are not iterable.\<close>

fun py_in :: "string \<Rightarrow> json \<Rightarrow> py_error + bool" where
  "py_in k (JObj kvs) = Inr (k \<in> set (map fst kvs))"
| "py_in k (JArr xs) = Inr (JStr k \<in> set xs)"
| "py_in k (JStr s) = Inr (py_contains k s)"
| "py_in k v = Inl TypeError"

text \<open>The elements a \<^verbatim>\<open>for\<close> loop or a comprehension visits, in order.\<close>

fun py_iter :: "json \<Rightarrow> py_error + json list" where
  "py_iter (JArr xs) = Inr xs"
| "py_iter (JObj kvs) = Inr (map (\<lambda>kv. JStr (fst kv)) kvs)"
| "py_iter (JStr s) = Inr (map (\<lambda>c. JStr [c]) s)"
| "py_iter v = Inl TypeError"

fun py_len :: "json \<Rightarrow> py_error + nat" where
  "py_len (JArr xs) = Inr (length xs)"
| "py_len (JObj kvs) = Inr (length kvs)"
| "py_len (JStr s) = Inr (length s)"
| "py_len v = Inl TypeError"

text \<open>\<^verbatim>\<open>x[:n]\<close> on a JSON value, for a constant \<open>n\<close> that is not negative: a list or a
  string is sliced; a dict and the scalar values raise (a \<^verbatim>\<open>TypeError\<close>; from Python 3.12
  on a dict raises \<^verbatim>\<open>KeyError\<close> instead).\<close>

fun py_prefix :: "json \<Rightarrow> nat \<Rightarrow> py_error + json" where
  "py_prefix (JArr xs) n = Inr (JArr (take n xs))"
| "py_prefix (JStr s) n = Inr (JStr (take n s))"
| "py_prefix v n = Inl TypeError"

text \<open>\<^verbatim>\<open>x.lower()\<close> and \<^verbatim>\<open>x.replace("Z", "+00:00")\<close> on a JSON value: methods of \<^verbatim>\<open>str\<close>
  only.\<close>

fun json_lower :: "json \<Rightarrow> py_error + string" where
  "json_lower (JStr s) = Inr (py_lower s)"
| "json_lower v = Inl AttributeError"

fun json_replace_Z :: "json \<Rightarrow> py_error + string" where
  "json_replace_Z (JStr s) = Inr (replace_Z s)"
| "json_replace_Z v = Inl AttributeError"

text \<open>
  A replacement field \<^verbatim>\<open>{x}\<close> of an f-string: a string is inserted as it is, \<^verbatim>\<open>None\<close>,
  booleans and integers by their literals. For a float, a list or a dict Python inserts
  its \<^verbatim>\<open>repr\<close>, which is the parameter \<open>repr\<close> of the model.
\<close>

fun py_format :: "(json \<Rightarrow> string) \<Rightarrow> json \<Rightarrow> string" where
  "py_format repr (JStr s) = s"
| "py_format repr JNull = ''None''"
| "py_format repr (JBool b) = (if b then ''True'' else ''False'')"
| "py_format repr (JInt i) = show_int i"
| "py_format repr v = repr v"

section \<open>Forum registry and forum resolution\<close>

record forum_config =
  forum_name :: string
  forum_url :: string
  base_url :: string
  aliases :: "string list"

text \<open>The dict \<^verbatim>\<open>FORUMS\<close>, as an association list in insertion order (the order in
  which \<^verbatim>\<open>FORUMS.items()\<close> and \<^verbatim>\<open>FORUMS.keys()\<close> iterate). The fields \<open>forum_name\<close>
  and \<open>forum_url\<close> are the keys \<^verbatim>\<open>"name"\<close> and \<^verbatim>\<open>"url"\<close>.\<close>

definition FORUMS :: "(string \<times> forum_config) list" where
  "FORUMS =
     [(''lesswrong'',
        \<lparr>forum_name = ''LessWrong'', forum_url = ''https://www.lesswrong.com/graphql'',
         base_url = ''https://www.lesswrong.com'', aliases = [''lw'', ''less-wrong'']\<rparr>),
      (''eaforum'',
        \<lparr>forum_name = ''EA Forum'',
         forum_url = ''https://forum.effectivealtruism.org/graphql'',
         base_url = ''https://forum.effectivealtruism.org'',
         aliases = [''ea'', ''effective-altruism'', ''ea-forum'']\<rparr>),
      (''alignmentforum'',
        \<lparr>forum_name = ''Alignment Forum'',
         forum_url = ''https://www.alignmentforum.org/graphql'',
         base_url = ''https://www.alignmentforum.org'',
         aliases = [''af'', ''alignment'', ''alignment-forum'']\<rparr>)]"

text \<open>The loop \<^verbatim>\<open>for key, config in FORUMS.items()\<close> of \<^verbatim>\<open>resolve_forum\<close>: the first
  forum whose alias list holds the input, or nothing when the loop runs out.\<close>

fun check_aliases :: "string \<Rightarrow> (string \<times> forum_config) list \<Rightarrow> string option" where
  "check_aliases forum_input [] = None"
| "check_aliases forum_input ((key, config) # rest) =
     (if forum_input \<in> set (aliases config) then Some key
      else check_aliases forum_input rest)"

definition resolve_forum :: "string \<Rightarrow> py_error + string" where
  "resolve_forum forum_input0 =
     (let forum_input = py_strip (py_lower forum_input0) in
      if forum_input \<in> set (map fst FORUMS) then Inr forum_input
      else case check_aliases forum_input FORUMS of
             Some key \<Rightarrow> Inr key
           | None \<Rightarrow>
               Inl (ValueError (''Unknown forum: '' @ forum_input @ ''. Valid options: ''
                      @ py_join '', '' (map fst FORUMS))))"

definition get_forum_url :: "string \<Rightarrow> py_error + string" where
  "get_forum_url forum =
     bind_r (resolve_forum forum) (\<lambda>forum_key.
       case map_of FORUMS forum_key of
         Some config \<Rightarrow> Inr (forum_url config)
       | None \<Rightarrow> Inl (KeyError forum_key))"

section \<open>GraphQL transport\<close>

text \<open>
  The six GraphQL documents of the script are fixed string constants; the model names
  each by the operation it declares (\<^verbatim>\<open>query GetUser\<close>, \<^verbatim>\<open>query GetUserPosts\<close>, ...).
  \<open>GetTags\<close> is the document of \<^verbatim>\<open>get_tag_by_slug\<close>, \<open>SearchTags\<close> that of
  \<^verbatim>\<open>search_tags\<close>.
\<close>

datatype gql_document =
  GetUser | GetUserPosts | GetUserComments | GetTags | SearchTags | GetTagPosts

text \<open>The JSON body of the request: \<^verbatim>\<open>{"query": query}\<close>, with \<^verbatim>\<open>"variables"\<close> only when
  the caller's dict is not empty.\<close>

record payload =
  query :: gql_document
  variables :: "(string \<times> json) list option"

text \<open>What the script reads of a \<^verbatim>\<open>requests.Response\<close>: the status code, and the result
  of \<^verbatim>\<open>response.json()\<close>, which raises on a body that is not JSON.\<close>

record response =
  status_code :: int
  body_json :: "py_error + json"

text \<open>The network is a parameter of the model: \<open>post u p\<close> is the outcome of
  \<^verbatim>\<open>requests.post(u, json=p, headers=...)\<close>, a response or the exception it raised.\<close>

type_synonym transport = "string \<Rightarrow> payload \<Rightarrow> py_error + response"

text \<open>\<^verbatim>\<open>response.raise_for_status()\<close> raises for the statuses 400 to 599.\<close>

definition raise_for_status :: "response \<Rightarrow> py_error + unit" where
  "raise_for_status r =
     (if 400 \<le> status_code r \<and> status_code r < 600 then Inl (HTTPError (status_code r))
      else Inr ())"

text \<open>\<^verbatim>\<open>payload = {"query": query}\<close>, then \<^verbatim>\<open>if variables: payload["variables"] = variables\<close>:
  \<^verbatim>\<open>None\<close> and the empty dict are both false.\<close>

definition request_payload :: "gql_document \<Rightarrow> (string \<times> json) list option \<Rightarrow> payload" where
  "request_payload qry vars =
     \<lparr>query = qry,
      variables = (case vars of Some (kv # kvs) \<Rightarrow> Some (kv # kvs) | _ \<Rightarrow> None)\<rparr>"

definition graphql_query ::
  "transport \<Rightarrow> (json \<Rightarrow> string) \<Rightarrow> gql_document \<Rightarrow> (string \<times> json) list option \<Rightarrow> string
     \<Rightarrow> py_error + json" where
  "graphql_query post repr qry vars forum =
     bind_r (get_forum_url forum) (\<lambda>u.
     bind_r (post u (request_payload qry vars)) (\<lambda>resp.
     bind_r (raise_for_status resp) (\<lambda>_.
     bind_r (body_json resp) (\<lambda>data.
     bind_r (py_in ''errors'' data) (\<lambda>has_errors.
       if has_errors
       then bind_r (py_getitem data ''errors'') (\<lambda>errors.
              Inl (Exception (''GraphQL errors: '' @ py_format repr errors)))
       else py_get data ''data'' (JObj []))))))"

section \<open>Timestamps and the recency filter\<close>

text \<open>
  A \<^verbatim>\<open>datetime\<close> is either naive (\<open>Naive w\<close>: wall-clock microseconds counted from
  1970-01-01T00:00:00) or timezone-aware (\<open>Aware t off\<close>: the instant in microseconds
  since the epoch in UTC, and the UTC offset in microseconds). Two aware values compare
  by their instants, two naive values by their wall clocks, and comparing a naive with
  an aware value raises \<^verbatim>\<open>TypeError\<close>. \<^verbatim>\<open>datetime.fromisoformat\<close> is a function of the
  Python library and a parameter of the model.
\<close>

datatype datetime = Naive int | Aware int int

fun dt_ge :: "datetime \<Rightarrow> datetime \<Rightarrow> py_error + bool" where
  "dt_ge (Naive a) (Naive b) = Inr (a \<ge> b)"
| "dt_ge (Aware a _) (Aware b _) = Inr (a \<ge> b)"
| "dt_ge _ _ = Inl TypeError"

fun wall_clock :: "datetime \<Rightarrow> int" where
  "wall_clock (Naive w) = w"
| "wall_clock (Aware t off) = t + off"

definition day_us :: int where
  "day_us = 86400000000"

text \<open>\<^verbatim>\<open>d - timedelta(days=n)\<close>: \<^verbatim>\<open>timedelta\<close> accepts at most 999999999 days either way,
  and the difference must stay within \<^verbatim>\<open>datetime.min\<close> (0001-01-01T00:00:00) and
  \<^verbatim>\<open>datetime.max\<close> (9999-12-31T23:59:59.999999) on the wall clock. The offset is kept.\<close>

definition minus_days :: "datetime \<Rightarrow> int \<Rightarrow> py_error + datetime" where
  "minus_days d n =
     (if n < - 999999999 \<or> 999999999 < n then Inl OverflowError
      else let w = wall_clock d - n * day_us in
        if w < - 62135596800000000 \<or> 253402300799999999 < w then Inl OverflowError
        else Inr (case d of Naive _ \<Rightarrow> Naive w | Aware t off \<Rightarrow> Aware (t - n * day_us) off))"

text \<open>
  The system clock is a parameter too: \<open>clk k\<close> is what the \<open>k\<close>-th reading of the clock
  in a run returns, the instant in UTC and the local UTC offset, both in microseconds.
  A function that reads the clock takes the number of readings made so far and returns
  the new count. \<^verbatim>\<open>datetime.now()\<close> is the naive local time of the reading,
  \<^verbatim>\<open>datetime.now().astimezone()\<close> the same instant with the local offset attached.
\<close>

type_synonym clock = "nat \<Rightarrow> int \<times> int"

definition datetime_now :: "clock \<Rightarrow> nat \<Rightarrow> datetime \<times> nat" where
  "datetime_now clk k = (Naive (fst (clk k) + snd (clk k)), Suc k)"

definition datetime_now_astimezone :: "clock \<Rightarrow> nat \<Rightarrow> datetime \<times> nat" where
  "datetime_now_astimezone clk k = (Aware (fst (clk k)) (snd (clk k)), Suc k)"

text \<open>\<^verbatim>\<open>datetime.fromisoformat(p["postedAt"].replace("Z", "+00:00"))\<close>, the timestamp of an
  item as the three fetchers read it.\<close>

definition posted_at :: "(string \<Rightarrow> py_error + datetime) \<Rightarrow> json \<Rightarrow> py_error + datetime" where
  "posted_at fromisoformat p =
     bind_r (py_getitem p ''postedAt'') (\<lambda>v.
     bind_r (json_replace_Z v) (\<lambda>s. fromisoformat s))"

text \<open>The comprehension \<^verbatim>\<open>[p for p in posts if posted_at(p) >= since_date]\<close>: the items
  are visited in order and the first exception ends the loop.\<close>

fun since_comprehension ::
  "(string \<Rightarrow> py_error + datetime) \<Rightarrow> datetime \<Rightarrow> json list \<Rightarrow> py_error + json list" where
  "since_comprehension fromisoformat since_date [] = Inr []"
| "since_comprehension fromisoformat since_date (p # ps) =
     bind_r (posted_at fromisoformat p) (\<lambda>t.
     bind_r (dt_ge t since_date) (\<lambda>keep.
     bind_r (since_comprehension fromisoformat since_date ps) (\<lambda>rest.
       Inr (if keep then p # rest else rest))))"

text \<open>The block \<^verbatim>\<open># Filter by date if specified\<close>, written out three times in the source
  (in \<^verbatim>\<open>get_user_posts\<close>, \<^verbatim>\<open>get_user_comments\<close> and \<^verbatim>\<open>get_posts_by_tag\<close>) with the same
  text. A \<^verbatim>\<open>datetime\<close> is always true in a condition, so the filter is skipped exactly
  when \<^verbatim>\<open>since_date\<close> is \<^verbatim>\<open>None\<close>.\<close>

definition filter_by_date ::
  "(string \<Rightarrow> py_error + datetime) \<Rightarrow> datetime option \<Rightarrow> json \<Rightarrow> py_error + json" where
  "filter_by_date fromisoformat since_date posts =
     (case since_date of
        None \<Rightarrow> Inr posts
      | Some since \<Rightarrow>
          bind_r (py_iter posts) (\<lambda>items.
          bind_r (since_comprehension fromisoformat since items) (\<lambda>kept. Inr (JArr kept))))"

section \<open>Entity fetchers\<close>

definition get_user_by_slug ::
  "transport \<Rightarrow> (json \<Rightarrow> string) \<Rightarrow> string \<Rightarrow> string \<Rightarrow> py_error + json" where
  "get_user_by_slug post repr slug forum =
     bind_r (graphql_query post repr GetUser (Some [(''slug'', JStr slug)]) forum) (\<lambda>data.
     bind_r (py_get data ''user'' (JObj [])) (\<lambda>u.
     bind_r (py_get u ''result'' JNull) (\<lambda>user.
       if \<not> py_truthy user then Inl (Exception (''User not found: '' @ slug))
       else Inr user)))"

definition get_user_posts ::
  "transport \<Rightarrow> (json \<Rightarrow> string) \<Rightarrow> (string \<Rightarrow> py_error + datetime) \<Rightarrow> json \<Rightarrow> datetime option
     \<Rightarrow> int \<Rightarrow> string \<Rightarrow> py_error + json" where
  "get_user_posts post repr fromisoformat user_id since_date limit forum =
     bind_r (graphql_query post repr GetUserPosts
               (Some [(''userId'', user_id), (''limit'', JInt limit)]) forum) (\<lambda>data.
     bind_r (py_get data ''posts'' (JObj [])) (\<lambda>d.
     bind_r (py_get d ''results'' (JArr [])) (\<lambda>posts.
       filter_by_date fromisoformat since_date posts)))"

definition get_user_comments ::
  "transport \<Rightarrow> (json \<Rightarrow> string) \<Rightarrow> (string \<Rightarrow> py_error + datetime) \<Rightarrow> json \<Rightarrow> datetime option
     \<Rightarrow> int \<Rightarrow> string \<Rightarrow> py_error + json" where
  "get_user_comments post repr fromisoformat user_id since_date limit forum =
     bind_r (graphql_query post repr GetUserComments
               (Some [(''userId'', user_id), (''limit'', JInt limit)]) forum) (\<lambda>data.
     bind_r (py_get data ''comments'' (JObj [])) (\<lambda>d.
     bind_r (py_get d ''results'' (JArr [])) (\<lambda>comments.
       filter_by_date fromisoformat since_date comments)))"

definition get_posts_by_tag ::
  "transport \<Rightarrow> (json \<Rightarrow> string) \<Rightarrow> (string \<Rightarrow> py_error + datetime) \<Rightarrow> json \<Rightarrow> datetime option
     \<Rightarrow> int \<Rightarrow> string \<Rightarrow> py_error + json" where
  "get_posts_by_tag post repr fromisoformat tag_id since_date limit forum =
     bind_r (graphql_query post repr GetTagPosts
               (Some [(''tagId'', tag_id), (''limit'', JInt limit)]) forum) (\<lambda>data.
     bind_r (py_get data ''posts'' (JObj [])) (\<lambda>d.
     bind_r (py_get d ''results'' (JArr [])) (\<lambda>posts.
       filter_by_date fromisoformat since_date posts)))"

subsection \<open>Tags\<close>

text \<open>The loop of \<^verbatim>\<open>get_tag_by_slug\<close>: the first tag whose \<^verbatim>\<open>tag.get("slug", "").lower()\<close>
  is the lower-cased request is returned; the \<^verbatim>\<open>raise\<close> after the loop is reached when
  the list runs out.\<close>

fun find_tag :: "string \<Rightarrow> string \<Rightarrow> json list \<Rightarrow> py_error + json" where
  "find_tag slug slug_lower [] = Inl (Exception (''Tag/topic not found: '' @ slug))"
| "find_tag slug slug_lower (tag # rest) =
     bind_r (py_get tag ''slug'' (JStr [])) (\<lambda>v.
     bind_r (json_lower v) (\<lambda>s.
       if s = slug_lower then Inr tag else find_tag slug slug_lower rest))"

definition get_tag_by_slug ::
  "transport \<Rightarrow> (json \<Rightarrow> string) \<Rightarrow> string \<Rightarrow> string \<Rightarrow> py_error + json" where
  "get_tag_by_slug post repr slug forum =
     bind_r (graphql_query post repr GetTags (Some [(''limit'', JInt 500)]) forum) (\<lambda>data.
     bind_r (py_get data ''tags'' (JObj [])) (\<lambda>d.
     bind_r (py_get d ''results'' (JArr [])) (\<lambda>tags.
     bind_r (py_iter tags) (\<lambda>items.
       find_tag slug (py_lower slug) items))))"

text \<open>The comprehension \<^verbatim>\<open>[t for t in tags if query_lower in t["name"].lower()]\<close>.\<close>

fun matching_tags :: "string \<Rightarrow> json list \<Rightarrow> py_error + json list" where
  "matching_tags query_lower [] = Inr []"
| "matching_tags query_lower (t # ts) =
     bind_r (py_getitem t ''name'') (\<lambda>v.
     bind_r (json_lower v) (\<lambda>s.
     bind_r (matching_tags query_lower ts) (\<lambda>rest.
       Inr (if py_contains query_lower s then t # rest else rest))))"

definition search_tags ::
  "transport \<Rightarrow> (json \<Rightarrow> string) \<Rightarrow> string \<Rightarrow> int \<Rightarrow> string \<Rightarrow> py_error + json list" where
  "search_tags post repr query_str limit forum =
     bind_r (graphql_query post repr SearchTags (Some [(''limit'', JInt 200)]) forum) (\<lambda>data.
     bind_r (py_get data ''tags'' (JObj [])) (\<lambda>d.
     bind_r (py_get d ''results'' (JArr [])) (\<lambda>tags.
     bind_r (py_iter tags) (\<lambda>items.
     bind_r (matching_tags (py_lower query_str) items) (\<lambda>matching.
       Inr (py_slice_to matching limit))))))"

section \<open>Activity aggregators\<close>

text \<open>The dict a \<^verbatim>\<open>fetch_*_activity\<close> function returns, key by key. The source stores
  \<^verbatim>\<open>since_date.isoformat()\<close> and \<^verbatim>\<open>datetime.now().isoformat()\<close> under the last two keys;
  the model keeps the two \<^verbatim>\<open>datetime\<close> values those strings print.\<close>

record user_activity =
  ua_forum :: string
  ua_user :: json
  ua_posts :: json
  ua_comments :: json
  ua_since_date :: datetime
  ua_fetched_at :: datetime

record topic_activity =
  ta_forum :: string
  ta_topic :: json
  ta_posts :: json
  ta_since_date :: datetime
  ta_fetched_at :: datetime

definition fetch_user_activity ::
  "transport \<Rightarrow> (json \<Rightarrow> string) \<Rightarrow> (string \<Rightarrow> py_error + datetime) \<Rightarrow> clock \<Rightarrow> nat
     \<Rightarrow> string \<Rightarrow> int \<Rightarrow> string \<Rightarrow> py_error + (user_activity \<times> nat)" where
  "fetch_user_activity post repr fromisoformat clk k slug days forum =
     bind_r (get_user_by_slug post repr slug forum) (\<lambda>user.
     case datetime_now_astimezone clk k of (now, k1) \<Rightarrow>
     bind_r (minus_days now days) (\<lambda>since_date.
     bind_r (py_getitem user ''_id'') (\<lambda>user_id.
     bind_r (get_user_posts post repr fromisoformat user_id (Some since_date) 50 forum) (\<lambda>posts.
     bind_r (py_getitem user ''_id'') (\<lambda>user_id'.
     bind_r (get_user_comments post repr fromisoformat user_id' (Some since_date) 100 forum)
       (\<lambda>comments.
     case datetime_now clk k1 of (fetched_at, k2) \<Rightarrow>
       Inr (\<lparr>ua_forum = forum, ua_user = user, ua_posts = posts, ua_comments = comments,
             ua_since_date = since_date, ua_fetched_at = fetched_at\<rparr>, k2)))))))"

definition fetch_topic_activity ::
  "transport \<Rightarrow> (json \<Rightarrow> string) \<Rightarrow> (string \<Rightarrow> py_error + datetime) \<Rightarrow> clock \<Rightarrow> nat
     \<Rightarrow> string \<Rightarrow> int \<Rightarrow> string \<Rightarrow> py_error + (topic_activity \<times> nat)" where
  "fetch_topic_activity post repr fromisoformat clk k slug days forum =
     bind_r (get_tag_by_slug post repr slug forum) (\<lambda>tag.
     case datetime_now_astimezone clk k of (now, k1) \<Rightarrow>
     bind_r (minus_days now days) (\<lambda>since_date.
     bind_r (py_getitem tag ''_id'') (\<lambda>tag_id.
     bind_r (get_posts_by_tag post repr fromisoformat tag_id (Some since_date) 50 forum) (\<lambda>posts.
     case datetime_now clk k1 of (fetched_at, k2) \<Rightarrow>
       Inr (\<lparr>ta_forum = forum, ta_topic = tag, ta_posts = posts,
             ta_since_date = since_date, ta_fetched_at = fetched_at\<rparr>, k2)))))"

section \<open>Text rendering of a user's activity\<close>

text \<open>
  Standard output is the list of the strings given to \<^verbatim>\<open>print\<close>, one per call, in order.
  A piece of code that prints is a pair: what it printed, and the exception that ended it
  if one did. \<open>then_do\<close> runs a second piece after a first that ended normally;
  \<open>py_print\<close> is one call of \<^verbatim>\<open>print\<close> whose argument may raise while it is computed (nothing
  is printed then); \<open>with_value\<close> computes a value and passes it on.
\<close>

type_synonym printed = "string list \<times> py_error option"

definition then_do :: "printed \<Rightarrow> printed \<Rightarrow> printed" where
  "then_do a b = (case snd a of Some e \<Rightarrow> a | None \<Rightarrow> (fst a @ fst b, snd b))"

definition py_print :: "py_error + string \<Rightarrow> printed" where
  "py_print r = (case r of Inl e \<Rightarrow> ([], Some e) | Inr s \<Rightarrow> ([s], None))"

definition with_value :: "py_error + 'a \<Rightarrow> ('a \<Rightarrow> printed) \<Rightarrow> printed" where
  "with_value r f = (case r of Inl e \<Rightarrow> ([], Some e) | Inr x \<Rightarrow> f x)"

text \<open>\<^verbatim>\<open>format_date\<close>; \<open>strftime\<close> is the library's \<^verbatim>\<open>dt.strftime("%b %d, %Y")\<close>.\<close>

definition format_date ::
  "(string \<Rightarrow> py_error + datetime) \<Rightarrow> (datetime \<Rightarrow> string) \<Rightarrow> json \<Rightarrow> py_error + string" where
  "format_date fromisoformat strftime iso_date =
     bind_r (json_replace_Z iso_date) (\<lambda>s.
     bind_r (fromisoformat s) (\<lambda>dt. Inr (strftime dt)))"

text \<open>The body of \<^verbatim>\<open>for post in posts\<close>, then the rest of the loop.\<close>

fun print_posts ::
  "(json \<Rightarrow> string) \<Rightarrow> (string \<Rightarrow> py_error + datetime) \<Rightarrow> (datetime \<Rightarrow> string) \<Rightarrow> json list
     \<Rightarrow> printed" where
  "print_posts repr fromisoformat strftime [] = ([], None)"
| "print_posts repr fromisoformat strftime (post # rest) =
     with_value (bind_r (py_getitem post ''postedAt'') (format_date fromisoformat strftime))
       (\<lambda>date.
     with_value (py_get post ''baseScore'' (JInt 0)) (\<lambda>score.
     then_do (py_print (bind_r (py_getitem post ''title'') (\<lambda>title.
                Inr (''  ['' @ date @ ''] '' @ py_format repr title @ '' (score: ''
                       @ py_format repr score @ '')''))))
    (then_do (py_print (bind_r (py_get post ''pageUrl'' (JStr [])) (\<lambda>page_url.
                Inr (''    '' @ py_format repr page_url))))
             (print_posts repr fromisoformat strftime rest))))"

text \<open>The values the body of \<^verbatim>\<open>for comment in comments[:10]\<close> computes before it prints:
  \<^verbatim>\<open>date\<close>, \<^verbatim>\<open>score\<close>, \<^verbatim>\<open>post_title\<close> and \<^verbatim>\<open>excerpt\<close>, in the order of the source.\<close>

definition comment_fields ::
  "(string \<Rightarrow> py_error + datetime) \<Rightarrow> (datetime \<Rightarrow> string) \<Rightarrow> json
     \<Rightarrow> py_error + (string \<times> json \<times> json \<times> json)" where
  "comment_fields fromisoformat strftime comment =
     bind_r (bind_r (py_getitem comment ''postedAt'') (format_date fromisoformat strftime))
       (\<lambda>date.
     bind_r (py_get comment ''baseScore'' (JInt 0)) (\<lambda>score.
     bind_r (bind_r (py_get comment ''post'' (JObj [])) (\<lambda>post.
               py_get post ''title'' (JStr ''Unknown post''))) (\<lambda>post_title.
     bind_r (py_get comment ''contents'' (JObj [])) (\<lambda>c.
     bind_r (bind_r (py_get (if py_truthy c then c else JObj []) ''plaintextDescription''
                       (JStr []))
               (\<lambda>d. py_prefix d 100)) (\<lambda>excerpt.
       Inr (date, score, post_title, excerpt))))))"

fun print_comments ::
  "(json \<Rightarrow> string) \<Rightarrow> (string \<Rightarrow> py_error + datetime) \<Rightarrow> (datetime \<Rightarrow> string) \<Rightarrow> json list
     \<Rightarrow> printed" where
  "print_comments repr fromisoformat strftime [] = ([], None)"
| "print_comments repr fromisoformat strftime (comment # rest) =
     with_value (comment_fields fromisoformat strftime comment)
       (\<lambda>(date, score, post_title, excerpt).
     then_do (py_print (Inr (''  ['' @ date @ ''] On: '' @ py_format repr post_title
                @ '' (score: '' @ py_format repr score @ '')'')))
    (then_do (py_print (Inr (''    '' @ [CHR 0x22] @ py_format repr excerpt @ ''...''
                @ [CHR 0x22])))
    (then_do (py_print (bind_r (py_get comment ''pageUrl'' (JStr [])) (\<lambda>page_url.
                Inr (''    '' @ py_format repr page_url))))
             (print_comments repr fromisoformat strftime rest))))"

text \<open>\<^verbatim>\<open>print_user_activity\<close>, block by block as the source sets them apart with blank
  lines: the banner with the user's profile and the posts, then the comments, then the
  closing empty \<^verbatim>\<open>print()\<close>. \<open>fname\<close> is
  \<^verbatim>\<open>FORUMS.get(activity.get("forum", "lesswrong"), {}).get("name", "Forum")\<close>.\<close>

definition print_profile_and_posts ::
  "(json \<Rightarrow> string) \<Rightarrow> (string \<Rightarrow> py_error + datetime) \<Rightarrow> (datetime \<Rightarrow> string)
     \<Rightarrow> user_activity \<Rightarrow> printed" where
  "print_profile_and_posts repr fromisoformat strftime activity =
     (let user = ua_user activity;
          posts = ua_posts activity;
          fname = (case map_of FORUMS (ua_forum activity) of
                     Some config \<Rightarrow> forum_name config | None \<Rightarrow> ''Forum'')
      in
      then_do (py_print (Inr (CHR 0x0A # replicate 60 (CHR ''=''))))
     (then_do (py_print
                 (case user of
                    JObj _ \<Rightarrow>
                      bind_r (py_getitem user ''slug'') (\<lambda>slug.
                      bind_r (py_get user ''displayName'' slug) (\<lambda>display_name.
                        Inr (''['' @ fname @ ''] '' @ py_format repr display_name @ '' (@''
                               @ py_format repr slug @ '')'')))
                  | _ \<Rightarrow> Inl AttributeError))
     (then_do (py_print (bind_r (py_get user ''karma'' (JStr ''N/A'')) (\<lambda>karma.
                 Inr (''Karma: '' @ py_format repr karma))))
     (then_do (py_print (Inr (replicate 60 (CHR ''=''))))
     (then_do (py_print (bind_r (py_len posts) (\<lambda>n.
                 Inr (CHR 0x0A # ''Posts ('' @ show_nat n @ ''):''))))
              (if py_truthy posts
               then with_value (py_iter posts) (print_posts repr fromisoformat strftime)
               else py_print (Inr ''  No posts in this period.'')))))))"

definition print_comments_block ::
  "(json \<Rightarrow> string) \<Rightarrow> (string \<Rightarrow> py_error + datetime) \<Rightarrow> (datetime \<Rightarrow> string)
     \<Rightarrow> json \<Rightarrow> printed" where
  "print_comments_block repr fromisoformat strftime comments =
     then_do (py_print (bind_r (py_len comments) (\<lambda>n.
                Inr (CHR 0x0A # ''Comments ('' @ show_nat n @ ''):''))))
             (if py_truthy comments
              then with_value (py_prefix comments 10) (\<lambda>shown.
                   with_value (py_iter shown) (\<lambda>cs.
                   then_do (print_comments repr fromisoformat strftime cs)
                           (with_value (py_len comments) (\<lambda>n.
                              if n > 10
                              then py_print (Inr (''  ... and '' @ show_nat (n - 10)
                                                    @ '' more comments''))
                              else ([], None)))))
              else py_print (Inr ''  No comments in this period.''))"

definition print_user_activity ::
  "(json \<Rightarrow> string) \<Rightarrow> (string \<Rightarrow> py_error + datetime) \<Rightarrow> (datetime \<Rightarrow> string)
     \<Rightarrow> user_activity \<Rightarrow> printed" where
  "print_user_activity repr fromisoformat strftime activity =
     then_do (print_profile_and_posts repr fromisoformat strftime activity)
    (then_do (print_comments_block repr fromisoformat strftime (ua_comments activity))
             (py_print (Inr [])))"

section \<open>Notions the properties are stated with\<close>

text \<open>Whether a \<^verbatim>\<open>datetime\<close> carries a timezone, and the microsecond count a comparison of
  two values of the same kind looks at.\<close>

fun tz_aware :: "datetime \<Rightarrow> bool" where
  "tz_aware (Naive w) = False"
| "tz_aware (Aware t off) = True"

fun dt_micros :: "datetime \<Rightarrow> int" where
  "dt_micros (Naive w) = w"
| "dt_micros (Aware t off) = t"

text \<open>An item is on or after a window start when its timestamp can be read, can be
  compared with the window start, and is not smaller.\<close>

definition on_or_after :: "(string \<Rightarrow> py_error + datetime) \<Rightarrow> datetime \<Rightarrow> json \<Rightarrow> bool" where
  "on_or_after fromisoformat since p =
     (case posted_at fromisoformat p of
        Inr t \<Rightarrow> tz_aware t = tz_aware since \<and> dt_micros since \<le> dt_micros t
      | Inl e \<Rightarrow> False)"

text \<open>A string contains a query as a case-insensitive substring when some contiguous
  block of it equals the query up to letter case.\<close>

definition ci_substring :: "string \<Rightarrow> string \<Rightarrow> bool" where
  "ci_substring q s = (\<exists>pre mid suf. s = pre @ mid @ suf \<and> py_lower mid = py_lower q)"

subsection \<open>A concrete environment for running the model\<close>

text \<open>A finite excerpt of \<^verbatim>\<open>datetime.fromisoformat\<close>: three timestamps and their values
  (2024-01-01 and 2024-01-09 at midnight UTC, and the latter without an offset).\<close>

definition sample_fromisoformat :: "string \<Rightarrow> py_error + datetime" where
  "sample_fromisoformat s =
     (if s = ''2024-01-01T00:00:00.000+00:00'' then Inr (Aware 1704067200000000 0)
      else if s = ''2024-01-09T00:00:00.000+00:00'' then Inr (Aware 1704758400000000 0)
      else if s = ''2024-01-09T00:00:00'' then Inr (Naive 1704758400000000)
      else Inl (ValueError ''Invalid isoformat string''))"

definition old_post :: json where
  "old_post = JObj [(''_id'', JStr ''p1''), (''title'', JStr ''Old''),
                    (''postedAt'', JStr ''2024-01-01T00:00:00.000Z'')]"

definition new_post :: json where
  "new_post = JObj [(''_id'', JStr ''p2''), (''title'', JStr ''New''),
                    (''postedAt'', JStr ''2024-01-09T00:00:00.000Z'')]"

text \<open>A finite excerpt of \<^verbatim>\<open>repr\<close>: the empty list, the empty dict and the error list of
  the GraphQL response \<^verbatim>\<open>{"errors": [{"message": "boom"}]}\<close>.\<close>

definition boom_errors :: json where
  "boom_errors = JArr [JObj [(''message'', JStr ''boom'')]]"

definition sample_repr :: "json \<Rightarrow> string" where
  "sample_repr v =
     (if v = JArr [] then ''[]''
      else if v = JObj [] then ''{}''
      else if v = boom_errors
      then ''[{'' @ [CHR 0x27] @ ''message'' @ [CHR 0x27] @ '': '' @ [CHR 0x27] @ ''boom''
             @ [CHR 0x27] @ ''}]''
      else ''...'')"

text \<open>A transport that answers every request with the same response.\<close>

definition constant_post :: "response \<Rightarrow> transport" where
  "constant_post r u p = Inr r"

definition bad_request_response :: response where
  "bad_request_response =
     \<lparr>status_code = 400, body_json = Inr (JObj [(''errors'', boom_errors)])\<rparr>"

text \<open>A page of three tags, as the \<^verbatim>\<open>tags\<close> query returns it.\<close>

definition tag_ai_safety :: json where
  "tag_ai_safety = JObj [(''_id'', JStr ''t1''), (''name'', JStr ''AI Safety''),
                         (''slug'', JStr ''ai-safety''), (''postCount'', JInt 120)]"

definition tag_rationality :: json where
  "tag_rationality = JObj [(''_id'', JStr ''t2''), (''name'', JStr ''Rationality''),
                           (''slug'', JStr ''rationality''), (''postCount'', JInt 300)]"

definition tag_safety_culture :: json where
  "tag_safety_culture = JObj [(''_id'', JStr ''t3''), (''name'', JStr ''Safety culture''),
                              (''slug'', JStr ''AI-Safety''), (''postCount'', JInt 7)]"

definition tags_response :: response where
  "tags_response =
     \<lparr>status_code = 200,
      body_json = Inr (JObj [(''data'', JObj [(''tags'', JObj [(''results'',
                    JArr [tag_rationality, tag_ai_safety, tag_safety_culture])])])])\<rparr>"

text \<open>The invariant as the specification words it: the window start is the fetch time
  minus the requested number of days, both read on the local wall clock.\<close>

definition window_invariant :: "datetime \<Rightarrow> datetime \<Rightarrow> int \<Rightarrow> bool" where
  "window_invariant since_date fetched_at days =
     (wall_clock since_date = wall_clock fetched_at - days * day_us)"

text \<open>A user, a forum that answers each of the six queries, and a clock whose first
  reading is 2024-01-10T00:00:00 UTC and whose later readings are one and a half seconds
  after it.\<close>

definition sample_user :: json where
  "sample_user = JObj [(''_id'', JStr ''u1''), (''username'', JStr ''alice''),
                       (''displayName'', JStr ''Alice''), (''slug'', JStr ''alice''),
                       (''karma'', JInt 500)]"

definition results_response :: "string \<Rightarrow> json list \<Rightarrow> response" where
  "results_response field items =
     \<lparr>status_code = 200,
      body_json = Inr (JObj [(''data'', JObj [(field, JObj [(''results'', JArr items)])])])\<rparr>"

definition sample_post :: transport where
  "sample_post u p =
     (case query p of
        GetUser \<Rightarrow>
          Inr \<lparr>status_code = 200,
               body_json = Inr (JObj [(''data'', JObj [(''user'',
                             JObj [(''result'', sample_user)])])])\<rparr>
      | GetUserPosts \<Rightarrow> Inr (results_response ''posts'' [old_post, new_post])
      | GetUserComments \<Rightarrow> Inr (results_response ''comments'' [new_post, old_post, new_post])
      | GetTagPosts \<Rightarrow> Inr (results_response ''posts'' [new_post, old_post])
      | GetTags \<Rightarrow> Inr tags_response
      | SearchTags \<Rightarrow> Inr tags_response)"

definition sample_clock :: clock where
  "sample_clock k = (if k = 0 then (1704844800000000, 0) else (1704844801500000, 0))"

definition sample_user_activity :: user_activity where
  "sample_user_activity =
     \<lparr>ua_forum = ''lesswrong'', ua_user = sample_user, ua_posts = JArr [new_post],
      ua_comments = JArr [new_post, new_post],
      ua_since_date = Aware 1704240000000000 0, ua_fetched_at = Naive 1704844801500000\<rparr>"

definition sample_topic_activity :: topic_activity where
  "sample_topic_activity =
     \<lparr>ta_forum = ''lesswrong'', ta_topic = tag_ai_safety, ta_posts = JArr [new_post],
      ta_since_date = Aware 1704240000000000 0, ta_fetched_at = Naive 1704844801500000\<rparr>"

text \<open>A finite excerpt of \<^verbatim>\<open>strftime("%b %d, %Y")\<close>, a comment whose text is 120
  characters long, and a report with twelve such comments.\<close>

definition sample_strftime :: "datetime \<Rightarrow> string" where
  "sample_strftime d =
     (if d = Aware 1704758400000000 0 then ''Jan 09, 2024''
      else if d = Aware 1704067200000000 0 then ''Jan 01, 2024''
      else ''?'')"

definition sample_comment :: json where
  "sample_comment =
     JObj [(''_id'', JStr ''c1''), (''postedAt'', JStr ''2024-01-09T00:00:00.000Z''),
           (''pageUrl'', JStr ''https://www.lesswrong.com/c1''), (''baseScore'', JInt 3),
           (''post'', JObj [(''_id'', JStr ''p2''), (''title'', JStr ''New'')]),
           (''contents'', JObj [(''markdown'', JStr ''md''),
                                (''plaintextDescription'', JStr (replicate 120 (CHR ''x'')))])]"

definition busy_user_activity :: user_activity where
  "busy_user_activity =
     \<lparr>ua_forum = ''lesswrong'', ua_user = sample_user, ua_posts = JArr [],
      ua_comments = JArr (replicate 12 sample_comment),
      ua_since_date = Aware 1704240000000000 0, ua_fetched_at = Naive 1704844801500000\<rparr>"

section \<open>Properties\<close>

subsection \<open>Forum resolution\<close>

lemmas py_string_eval =
  py_lower_def py_lower_char_def py_isspace_def py_strip_def char_of_def bit_Suc_0_iff

lemma py_lower_append: "py_lower (a @ b) = py_lower a @ py_lower b"
  by (simp add: py_lower_def)

lemma py_lower_char_space: "py_isspace c \<Longrightarrow> py_lower_char c = c"
  by (auto simp: py_isspace_def py_lower_char_def Let_def)

lemma py_lower_spaces: "\<forall>c\<in>set w. py_isspace c \<Longrightarrow> py_lower w = w"
  by (induction w) (simp_all add: py_lower_def py_lower_char_space)

lemma dropWhile_spaces_append:
  "\<forall>c\<in>set w. py_isspace c \<Longrightarrow> dropWhile py_isspace (w @ s) = dropWhile py_isspace s"
  by (induction w) simp_all

lemma py_strip_padded:
  assumes l: "\<forall>c\<in>set l. py_isspace c" and r: "\<forall>c\<in>set r. py_isspace c"
    and k: "k \<noteq> []" "\<not> py_isspace (hd k)" "\<not> py_isspace (last k)"
  shows "py_strip (l @ k @ r) = k"
proof -
  have front: "dropWhile py_isspace (l @ k @ r) = k @ r"
    using l k by (cases k) (simp_all add: dropWhile_spaces_append)
  have "rev (k @ r) = rev r @ rev k" by simp
  moreover have "\<forall>c\<in>set (rev r). py_isspace c" using r by simp
  ultimately have "dropWhile py_isspace (rev (k @ r)) = dropWhile py_isspace (rev k)"
    by (simp add: dropWhile_spaces_append)
  moreover have "dropWhile py_isspace (rev k) = rev k"
    using k by (cases k rule: rev_cases) simp_all
  ultimately show ?thesis by (simp add: py_strip_def front)
qed

lemma normalise_padded:
  assumes "\<forall>c\<in>set l. py_isspace c" and "\<forall>c\<in>set r. py_isspace c"
    and "py_lower v = k" and "k \<noteq> []" "\<not> py_isspace (hd k)" "\<not> py_isspace (last k)"
  shows "py_strip (py_lower (l @ v @ r)) = k"
  using assms by (simp add: py_lower_append py_lower_spaces py_strip_padded)


lemma resolve_forum_of_normalised:
  "resolve_forum s =
     (let n = py_strip (py_lower s) in
      if n \<in> set (map fst FORUMS) then Inr n
      else case check_aliases n FORUMS of
             Some key \<Rightarrow> Inr key
           | None \<Rightarrow>
               Inl (ValueError (''Unknown forum: '' @ n @ ''. Valid options: ''
                      @ py_join '', '' (map fst FORUMS))))"
  by (simp add: resolve_forum_def)

lemma FORUMS_keys: "map fst FORUMS = [''lesswrong'', ''eaforum'', ''alignmentforum'']"
  by (simp add: FORUMS_def)

lemma FORUMS_alias_table:
  "map (\<lambda>(key, config). (key, aliases config)) FORUMS =
     [(''lesswrong'', [''lw'', ''less-wrong'']),
      (''eaforum'', [''ea'', ''effective-altruism'', ''ea-forum'']),
      (''alignmentforum'', [''af'', ''alignment'', ''alignment-forum''])]"
  by (simp add: FORUMS_def)

lemma FORUMS_entry:
  assumes "(key, config) \<in> set FORUMS"
  shows "(key = ''lesswrong'' \<and> aliases config = [''lw'', ''less-wrong'']) \<or>
         (key = ''eaforum'' \<and> aliases config = [''ea'', ''effective-altruism'', ''ea-forum'']) \<or>
         (key = ''alignmentforum'' \<and> aliases config = [''af'', ''alignment'', ''alignment-forum''])"
proof -
  have "(key, aliases config) \<in> (\<lambda>(key, config). (key, aliases config)) ` set FORUMS"
    using assms by (rule rev_image_eqI) simp
  then have "(key, aliases config) \<in> set (map (\<lambda>(key, config). (key, aliases config)) FORUMS)"
    by (simp only: set_map)
  then show ?thesis
    unfolding FORUMS_alias_table by simp
qed

lemma check_aliases_FORUMS:
  "check_aliases n FORUMS =
     (if n \<in> set [''lw'', ''less-wrong''] then Some ''lesswrong''
      else if n \<in> set [''ea'', ''effective-altruism'', ''ea-forum''] then Some ''eaforum''
      else if n \<in> set [''af'', ''alignment'', ''alignment-forum''] then Some ''alignmentforum''
      else None)"
  unfolding FORUMS_def by (simp del: set_simps)

lemma FORUMS_pair:
  assumes "(key, config) \<in> set FORUMS" and "a \<in> set (aliases config)"
  shows "(key, a) \<in> set [(''lesswrong'', ''lw''), (''lesswrong'', ''less-wrong''),
           (''eaforum'', ''ea''), (''eaforum'', ''effective-altruism''), (''eaforum'', ''ea-forum''),
           (''alignmentforum'', ''af''), (''alignmentforum'', ''alignment''),
           (''alignmentforum'', ''alignment-forum'')]"
  using FORUMS_entry[OF assms(1)] assms(2) by (elim disjE conjE) simp_all

lemma FORUMS_names_clean:
  assumes "(key, config) \<in> set FORUMS"
  shows "key \<noteq> [] \<and> \<not> py_isspace (hd key) \<and> \<not> py_isspace (last key)"
    and "\<forall>a\<in>set (aliases config). a \<noteq> [] \<and> \<not> py_isspace (hd a) \<and> \<not> py_isspace (last a)"
  using FORUMS_entry[OF assms] by (elim disjE conjE; simp add: py_isspace_def)+

lemma resolve_forum_canonical:
  assumes "(key, config) \<in> set FORUMS" and "py_strip (py_lower s) = key"
  shows "resolve_forum s = Inr key"
  using FORUMS_entry[OF assms(1)] assms(2)
  by (elim disjE conjE) (simp_all add: resolve_forum_of_normalised FORUMS_keys)

lemma resolve_forum_alias:
  assumes "(key, config) \<in> set FORUMS" and "a \<in> set (aliases config)"
    and "py_strip (py_lower s) = a"
  shows "resolve_forum s = Inr key"
  using FORUMS_pair[OF assms(1,2)] assms(3)
  by (simp only: set_simps insert_iff empty_iff prod.inject, elim disjE conjE)
     (simp_all add: resolve_forum_of_normalised FORUMS_keys check_aliases_FORUMS)

text \<open>\<^bold>\<open>C4.\<close> For every entry \<open>(key, config)\<close> of the registry and every alias \<open>a\<close> of that
  entry: an input that is \<open>key\<close> in any letter case, between any runs of whitespace,
  and an input that is \<open>a\<close> in any letter case, between any runs of whitespace, both
  resolve to \<open>key\<close>.\<close>

theorem resolve_forum_key_alias_agree:
  assumes "(key, config) \<in> set FORUMS" and "a \<in> set (aliases config)"
    and "\<forall>c\<in>set l1. py_isspace c" and "\<forall>c\<in>set r1. py_isspace c" and "py_lower v1 = key"
    and "\<forall>c\<in>set l2. py_isspace c" and "\<forall>c\<in>set r2. py_isspace c" and "py_lower v2 = a"
  shows "resolve_forum (l1 @ v1 @ r1) = Inr key \<and> resolve_forum (l2 @ v2 @ r2) = Inr key"
proof -
  have "py_strip (py_lower (l1 @ v1 @ r1)) = key"
    using assms FORUMS_names_clean(1)[OF assms(1)] by (intro normalise_padded) simp_all
  moreover have "py_strip (py_lower (l2 @ v2 @ r2)) = a"
    using assms FORUMS_names_clean(2)[OF assms(1)] by (intro normalise_padded) simp_all
  ultimately show ?thesis
    using assms(1,2) by (simp add: resolve_forum_canonical resolve_forum_alias)
qed

theorem resolve_forum_key_alias_agree_witness:
  "resolve_forum (''  '' @ ''EAForum'' @ '' '') = Inr ''eaforum'' \<and>
   resolve_forum ([CHR 0x09] @ ''Effective-Altruism'' @ [CHR 0x0A]) = Inr ''eaforum''"
  using resolve_forum_key_alias_agree [of "''eaforum''"
      "\<lparr>forum_name = ''EA Forum'', forum_url = ''https://forum.effectivealtruism.org/graphql'',
        base_url = ''https://forum.effectivealtruism.org'',
        aliases = [''ea'', ''effective-altruism'', ''ea-forum'']\<rparr>"
      "''effective-altruism''" "''  ''" "'' ''" "''EAForum''" "[CHR 0x09]" "[CHR 0x0A]"
      "''Effective-Altruism''"]
  by (simp add: FORUMS_def py_string_eval)

text \<open>\<^bold>\<open>C8.\<close> An input that, lower-cased and stripped, is neither a key of the registry nor
  an alias of any entry makes \<^verbatim>\<open>resolve_forum\<close> raise; the message names the normalised
  input and lists the three canonical keys.\<close>

theorem resolve_forum_unknown:
  assumes "py_strip (py_lower s) \<notin> set (map fst FORUMS)"
    and "\<forall>(key, config)\<in>set FORUMS. py_strip (py_lower s) \<notin> set (aliases config)"
  shows "resolve_forum s =
           Inl (ValueError (''Unknown forum: '' @ py_strip (py_lower s)
                  @ ''. Valid options: lesswrong, eaforum, alignmentforum''))"
  using assms by (simp add: resolve_forum_of_normalised FORUMS_def)

theorem resolve_forum_unknown_witness:
  "resolve_forum '' Reddit '' =
     Inl (ValueError ''Unknown forum: reddit. Valid options: lesswrong, eaforum, alignmentforum'')"
  using resolve_forum_unknown [of "'' Reddit ''"]
  by (simp add: FORUMS_def py_string_eval)

subsection \<open>The recency filter\<close>

lemma bind_r_Inl [simp]: "bind_r (Inl e) f = Inl e"
  by (simp add: bind_r_def)

lemma bind_r_Inr [simp]: "bind_r (Inr x) f = f x"
  by (simp add: bind_r_def)

lemma bind_r_eq_Inr:
  "bind_r m f = Inr y \<longleftrightarrow> (\<exists>x. m = Inr x \<and> f x = Inr y)"
  by (cases m) simp_all

lemma dt_ge_eq:
  "dt_ge t since = (if tz_aware t = tz_aware since then Inr (dt_micros since \<le> dt_micros t)
                    else Inl TypeError)"
  by (cases t; cases since) simp_all

lemma since_comprehension_filter:
  assumes "\<forall>p\<in>set items. \<exists>t. posted_at f p = Inr t \<and> tz_aware t = tz_aware since"
  shows "since_comprehension f since items = Inr (filter (on_or_after f since) items)"
  using assms
proof (induction items)
  case Nil
  then show ?case by simp
next
  case (Cons p ps)
  then obtain t where t: "posted_at f p = Inr t" "tz_aware t = tz_aware since"
    by auto
  have "since_comprehension f since ps = Inr (filter (on_or_after f since) ps)"
    using Cons by simp
  moreover have "on_or_after f since p = (dt_micros since \<le> dt_micros t)"
    using t by (simp add: on_or_after_def)
  ultimately show ?case
    using t by (simp add: dt_ge_eq)
qed

lemma since_comprehension_Inr:
  assumes "since_comprehension f since items = Inr kept"
  shows "\<forall>p\<in>set items. \<exists>t. posted_at f p = Inr t \<and> tz_aware t = tz_aware since"
  using assms
proof (induction items arbitrary: kept)
  case Nil
  then show ?case by simp
next
  case (Cons p ps)
  from Cons.prems obtain t keep rest where
    t: "posted_at f p = Inr t" and k: "dt_ge t since = Inr keep"
    and r: "since_comprehension f since ps = Inr rest"
    by (auto simp: bind_r_eq_Inr)
  from k have "tz_aware t = tz_aware since"
    by (simp add: dt_ge_eq split: if_splits)
  with t Cons.IH[OF r] show ?case by simp
qed

lemma since_comprehension_result:
  assumes "since_comprehension f since items = Inr kept"
  shows "kept = filter (on_or_after f since) items"
  using since_comprehension_filter[OF since_comprehension_Inr[OF assms]] assms by simp

text \<open>\<^bold>\<open>C1.\<close> Let every item of the sequence have a timestamp that can be read (\<open>ts p\<close> is
  its microsecond count) and is of the same kind, aware or naive, as the window start
  \<open>W\<close>. Then the recency filter returns the items with \<open>ts p \<ge> W\<close>, in the order of the
  input and with their multiplicities: the subsequence \<open>filter\<close> selects.\<close>

theorem filter_by_date_subsequence:
  assumes "\<forall>p\<in>set items. \<exists>t. posted_at fromisoformat p = Inr t
             \<and> tz_aware t = tz_aware W \<and> dt_micros t = ts p"
  shows "filter_by_date fromisoformat (Some W) (JArr items)
           = Inr (JArr (filter (\<lambda>p. dt_micros W \<le> ts p) items))"
proof -
  have wf: "\<forall>p\<in>set items. \<exists>t. posted_at fromisoformat p = Inr t \<and> tz_aware t = tz_aware W"
    using assms by blast
  have "filter (on_or_after fromisoformat W) items = filter (\<lambda>p. dt_micros W \<le> ts p) items"
  proof (rule filter_cong[OF refl])
    fix p assume "p \<in> set items"
    with assms obtain t where "posted_at fromisoformat p = Inr t"
      "tz_aware t = tz_aware W" "dt_micros t = ts p" by blast
    then show "on_or_after fromisoformat W p = (dt_micros W \<le> ts p)"
      by (simp add: on_or_after_def)
  qed
  with since_comprehension_filter[OF wf] show ?thesis
    by (simp add: filter_by_date_def)
qed

lemmas sample_eval =
  posted_at_def replace_Z_def sample_fromisoformat_def old_post_def new_post_def

lemma posted_at_old: "posted_at sample_fromisoformat old_post = Inr (Aware 1704067200000000 0)"
  by (simp add: sample_eval)

lemma posted_at_new: "posted_at sample_fromisoformat new_post = Inr (Aware 1704758400000000 0)"
  by (simp add: sample_eval)

lemma new_post_neq_old_post: "new_post \<noteq> old_post"
  by (simp add: old_post_def new_post_def)

theorem filter_by_date_subsequence_witness:
  "filter_by_date sample_fromisoformat (Some (Aware 1704240000000000 0))
     (JArr [new_post, old_post, new_post]) = Inr (JArr [new_post, new_post])"
  using filter_by_date_subsequence [of "[new_post, old_post, new_post]" sample_fromisoformat
      "Aware 1704240000000000 0"
      "\<lambda>p. if p = old_post then 1704067200000000 else 1704758400000000"]
  by (simp add: posted_at_old posted_at_new new_post_neq_old_post)

lemma replace_Z_no_Z: "CHR ''Z'' \<notin> set s \<Longrightarrow> replace_Z s = s"
  by (induction s) (auto simp: replace_Z_def)

lemma replace_Z_trailing:
  "CHR ''Z'' \<notin> set s \<Longrightarrow> replace_Z (s @ ''Z'') = s @ ''+00:00''"
  using replace_Z_no_Z[of s] by (simp add: replace_Z_def)

lemma filter_by_date_Inr:
  assumes "filter_by_date f (Some since) posts = Inr r"
  obtains items where "py_iter posts = Inr items"
    and "r = JArr (filter (on_or_after f since) items)"
    and "\<forall>p\<in>set items. \<exists>t. posted_at f p = Inr t \<and> tz_aware t = tz_aware since"
proof -
  from assms obtain items kept where i: "py_iter posts = Inr items"
    and k: "since_comprehension f since items = Inr kept" and r: "r = JArr kept"
    by (auto simp: filter_by_date_def bind_r_eq_Inr)
  show ?thesis
    using that[OF i] since_comprehension_result[OF k] since_comprehension_Inr[OF k] r by simp
qed

lemma filter_by_date_again:
  assumes "filter_by_date f (Some since) posts = Inr r"
  shows "filter_by_date f (Some since) r = Inr r"
proof -
  from assms obtain items where r: "r = JArr (filter (on_or_after f since) items)"
    and wf: "\<forall>p\<in>set items. \<exists>t. posted_at f p = Inr t \<and> tz_aware t = tz_aware since"
    by (rule filter_by_date_Inr)
  let ?kept = "filter (on_or_after f since) items"
  have "\<forall>p\<in>set ?kept. \<exists>t. posted_at f p = Inr t \<and> tz_aware t = tz_aware since"
    using wf by simp
  from since_comprehension_filter[OF this]
  show ?thesis by (simp add: r filter_by_date_def)
qed

lemma filter_by_date_returns:
  assumes "\<forall>p\<in>set items. \<exists>t. posted_at f p = Inr t \<and> tz_aware t = tz_aware since"
  shows "filter_by_date f (Some since) (JArr items)
           = Inr (JArr (filter (on_or_after f since) items))"
  using since_comprehension_filter[OF assms] by (simp add: filter_by_date_def)

text \<open>\<^bold>\<open>C7.\<close> Whatever the filter returns for a window start \<open>W\<close>, filtering that result
  again with \<open>W\<close> returns it unchanged; the filter does return when every item has a
  readable timestamp of the kind of \<open>W\<close>; and when moreover no item is older than \<open>W\<close>,
  the filter returns the input sequence itself.\<close>

theorem filter_by_date_idempotent_and_identity:
  "(\<forall>r. filter_by_date f (Some W) posts = Inr r \<longrightarrow> filter_by_date f (Some W) r = Inr r)
   \<and> ((\<forall>p\<in>set items. \<exists>t. posted_at f p = Inr t \<and> tz_aware t = tz_aware W)
        \<longrightarrow> (\<exists>r. filter_by_date f (Some W) (JArr items) = Inr r
                  \<and> filter_by_date f (Some W) r = Inr r))
   \<and> ((\<forall>p\<in>set items. \<exists>t. posted_at f p = Inr t \<and> tz_aware t = tz_aware W
                            \<and> dt_micros W \<le> dt_micros t)
        \<longrightarrow> filter_by_date f (Some W) (JArr items) = Inr (JArr items))"
proof (intro conjI allI impI)
  fix r assume "filter_by_date f (Some W) posts = Inr r"
  then show "filter_by_date f (Some W) r = Inr r" by (rule filter_by_date_again)
next
  assume wf: "\<forall>p\<in>set items. \<exists>t. posted_at f p = Inr t \<and> tz_aware t = tz_aware W"
  from filter_by_date_returns[OF wf] filter_by_date_again
  show "\<exists>r. filter_by_date f (Some W) (JArr items) = Inr r \<and> filter_by_date f (Some W) r = Inr r"
    by blast
next
  assume all: "\<forall>p\<in>set items. \<exists>t. posted_at f p = Inr t \<and> tz_aware t = tz_aware W
                 \<and> dt_micros W \<le> dt_micros t"
  then have wf: "\<forall>p\<in>set items. \<exists>t. posted_at f p = Inr t \<and> tz_aware t = tz_aware W"
    by blast
  have "filter (on_or_after f W) items = items"
  proof (rule filter_True, rule ballI)
    fix p assume "p \<in> set items"
    with all obtain t where "posted_at f p = Inr t" "tz_aware t = tz_aware W"
      "dt_micros W \<le> dt_micros t" by blast
    then show "on_or_after f W p" by (simp add: on_or_after_def)
  qed
  with filter_by_date_returns[OF wf]
  show "filter_by_date f (Some W) (JArr items) = Inr (JArr items)" by simp
qed

theorem filter_by_date_idempotent_and_identity_witness:
  "filter_by_date sample_fromisoformat (Some (Aware 1704240000000000 0))
     (JArr [old_post, new_post]) = Inr (JArr [new_post])
   \<and> filter_by_date sample_fromisoformat (Some (Aware 1704240000000000 0))
     (JArr [new_post]) = Inr (JArr [new_post])
   \<and> filter_by_date sample_fromisoformat (Some (Aware 1704000000000000 0))
     (JArr [old_post, new_post]) = Inr (JArr [old_post, new_post])"
proof -
  have run: "filter_by_date sample_fromisoformat (Some (Aware 1704240000000000 0))
     (JArr [old_post, new_post]) = Inr (JArr [new_post])"
    by (simp add: filter_by_date_def posted_at_old posted_at_new)
  have idem: "filter_by_date sample_fromisoformat (Some (Aware 1704240000000000 0))
     (JArr [new_post]) = Inr (JArr [new_post])"
    using filter_by_date_idempotent_and_identity [of sample_fromisoformat
        "Aware 1704240000000000 0" "JArr [old_post, new_post]" "[]"] run
    by blast
  have ident: "filter_by_date sample_fromisoformat (Some (Aware 1704000000000000 0))
     (JArr [old_post, new_post]) = Inr (JArr [old_post, new_post])"
    using filter_by_date_idempotent_and_identity [of sample_fromisoformat
        "Aware 1704000000000000 0" "JNull" "[old_post, new_post]"]
    by (simp add: posted_at_old posted_at_new)
  from run idem ident show ?thesis by simp
qed

subsection \<open>The GraphQL transport\<close>

lemma get_forum_url_canonical:
  "get_forum_url ''lesswrong'' = Inr ''https://www.lesswrong.com/graphql''"
  "get_forum_url ''eaforum'' = Inr ''https://forum.effectivealtruism.org/graphql''"
  "get_forum_url ''alignmentforum'' = Inr ''https://www.alignmentforum.org/graphql''"
  by (simp_all add: get_forum_url_def resolve_forum_def FORUMS_def py_string_eval)

lemma graphql_query_response:
  assumes "get_forum_url forum = Inr u" and "post u (request_payload qry vars) = Inr resp"
  shows "graphql_query post repr qry vars forum =
           (if 400 \<le> status_code resp \<and> status_code resp < 600
            then Inl (HTTPError (status_code resp))
            else bind_r (body_json resp) (\<lambda>data.
                 bind_r (py_in ''errors'' data) (\<lambda>has_errors.
                   if has_errors
                   then bind_r (py_getitem data ''errors'') (\<lambda>errors.
                          Inl (Exception (''GraphQL errors: '' @ py_format repr errors)))
                   else py_get data ''data'' (JObj []))))"
  using assms by (simp add: graphql_query_def raise_for_status_def)

lemma map_of_Some_key: "map_of kvs k = Some v \<Longrightarrow> k \<in> fst ` set kvs"
  by (metis domI dom_map_of_conv_image_fst)

text \<open>\<^bold>\<open>C10.\<close> When the forum resolves, the request is answered, the status is not an
  error status and the decoded body is a dict that has the key \<^verbatim>\<open>errors\<close>, with any value
  \<open>v\<close> at all, \<^verbatim>\<open>graphql_query\<close> raises the GraphQL-errors exception with \<open>v\<close> in its
  message. The witness runs it with \<^verbatim>\<open>null\<close> and with the empty list.\<close>

theorem graphql_query_errors_key:
  assumes "get_forum_url forum = Inr u"
    and "post u (request_payload qry vars) = Inr resp"
    and "\<not> (400 \<le> status_code resp \<and> status_code resp < 600)"
    and "body_json resp = Inr (JObj kvs)"
    and "map_of kvs ''errors'' = Some v"
  shows "graphql_query post repr qry vars forum
           = Inl (Exception (''GraphQL errors: '' @ py_format repr v))"
  using assms map_of_Some_key[OF assms(5)]
  by (simp add: graphql_query_def raise_for_status_def)

theorem graphql_query_errors_key_witness:
  "graphql_query (constant_post \<lparr>status_code = 200, body_json = Inr (JObj [(''errors'', JNull)])\<rparr>)
     sample_repr GetTags (Some [(''limit'', JInt 500)]) ''lesswrong''
     = Inl (Exception ''GraphQL errors: None'')
   \<and> graphql_query
       (constant_post \<lparr>status_code = 200,
                        body_json = Inr (JObj [(''data'', JObj []), (''errors'', JArr [])])\<rparr>)
     sample_repr GetTags (Some [(''limit'', JInt 500)]) ''lesswrong''
     = Inl (Exception ''GraphQL errors: []'')"
  using graphql_query_errors_key [of "''lesswrong''" "''https://www.lesswrong.com/graphql''"
      "constant_post \<lparr>status_code = 200, body_json = Inr (JObj [(''errors'', JNull)])\<rparr>"
      GetTags "Some [(''limit'', JInt 500)]"
      "\<lparr>status_code = 200, body_json = Inr (JObj [(''errors'', JNull)])\<rparr>"
      "[(''errors'', JNull)]" JNull sample_repr]
    graphql_query_errors_key [of "''lesswrong''" "''https://www.lesswrong.com/graphql''"
      "constant_post \<lparr>status_code = 200,
                        body_json = Inr (JObj [(''data'', JObj []), (''errors'', JArr [])])\<rparr>"
      GetTags "Some [(''limit'', JInt 500)]"
      "\<lparr>status_code = 200,
        body_json = Inr (JObj [(''data'', JObj []), (''errors'', JArr [])])\<rparr>"
      "[(''data'', JObj []), (''errors'', JArr [])]" "JArr []" sample_repr]
  by (simp add: get_forum_url_canonical constant_post_def sample_repr_def)

text \<open>\<^bold>\<open>C3\<close>, as stated, fails: a response with status 400 whose body is
  \<^verbatim>\<open>{"errors": [{"message": "boom"}]}\<close> ends in the \<^verbatim>\<open>HTTPError\<close> of
  \<^verbatim>\<open>raise_for_status\<close>, which is checked before the body is decoded, and not in the
  GraphQL-errors exception.\<close>

theorem graphql_query_error_status_first:
  "graphql_query (constant_post bad_request_response) sample_repr GetUser
       (Some [(''slug'', JStr ''alice'')]) ''lesswrong'' = Inl (HTTPError 400)
   \<and> graphql_query (constant_post bad_request_response) sample_repr GetUser
       (Some [(''slug'', JStr ''alice'')]) ''lesswrong''
       \<noteq> Inl (Exception (''GraphQL errors: '' @ py_format sample_repr boom_errors))"
  by (simp add: graphql_query_def raise_for_status_def get_forum_url_canonical
      constant_post_def bad_request_response_def)

text \<open>\<^bold>\<open>C3\<close>, amended. For a response whose body is a dict with a list under \<^verbatim>\<open>errors\<close>:
  with a status from 400 to 599 the call raises the \<^verbatim>\<open>HTTPError\<close> of that status, and with
  any other status, 200 included, it raises the GraphQL-errors exception whose message
  carries the \<^verbatim>\<open>repr\<close> of the list. Either way it does not return normally.\<close>

theorem graphql_query_errors_array:
  assumes "get_forum_url forum = Inr u"
    and "post u (request_payload qry vars) = Inr resp"
    and "body_json resp = Inr (JObj kvs)"
    and "map_of kvs ''errors'' = Some (JArr es)"
  shows "graphql_query post repr qry vars forum =
           (if 400 \<le> status_code resp \<and> status_code resp < 600
            then Inl (HTTPError (status_code resp))
            else Inl (Exception (''GraphQL errors: '' @ repr (JArr es))))"
  using assms map_of_Some_key[OF assms(4)]
  by (simp add: graphql_query_def raise_for_status_def)

theorem graphql_query_errors_array_witness:
  "graphql_query
     (constant_post \<lparr>status_code = 200, body_json = Inr (JObj [(''errors'', boom_errors)])\<rparr>)
     sample_repr GetUser (Some [(''slug'', JStr ''alice'')]) ''lesswrong''
     = Inl (Exception (''GraphQL errors: [{'' @ [CHR 0x27] @ ''message'' @ [CHR 0x27] @ '': ''
              @ [CHR 0x27] @ ''boom'' @ [CHR 0x27] @ ''}]''))"
  using graphql_query_errors_array [of "''lesswrong''" "''https://www.lesswrong.com/graphql''"
      "constant_post \<lparr>status_code = 200, body_json = Inr (JObj [(''errors'', boom_errors)])\<rparr>"
      GetUser "Some [(''slug'', JStr ''alice'')]"
      "\<lparr>status_code = 200, body_json = Inr (JObj [(''errors'', boom_errors)])\<rparr>"
      "[(''errors'', boom_errors)]" "[JObj [(''message'', JStr ''boom'')]]" sample_repr]
  by (simp add: get_forum_url_canonical constant_post_def sample_repr_def boom_errors_def)

subsection \<open>Tag search and tag lookup\<close>

lemma py_contains_iff: "py_contains q s \<longleftrightarrow> (\<exists>pre suf. s = pre @ q @ suf)"
proof (induction s)
  case Nil
  then show ?case by auto
next
  case (Cons c cs)
  show ?case
  proof
    assume "py_contains q (c # cs)"
    then consider "take (length q) (c # cs) = q" | "py_contains q cs" by auto
    then show "\<exists>pre suf. c # cs = pre @ q @ suf"
    proof cases
      case 1
      then have "c # cs = [] @ q @ drop (length q) (c # cs)"
        by (metis append_Nil append_take_drop_id)
      then show ?thesis by blast
    next
      case 2
      with Cons obtain pre suf where "cs = pre @ q @ suf" by blast
      then have "c # cs = (c # pre) @ q @ suf" by simp
      then show ?thesis by blast
    qed
  next
    assume "\<exists>pre suf. c # cs = pre @ q @ suf"
    then obtain pre suf where e: "c # cs = pre @ q @ suf" by blast
    show "py_contains q (c # cs)"
    proof (cases pre)
      case Nil
      with e have "take (length q) (c # cs) = q" by simp
      then show ?thesis by simp
    next
      case (Cons a pre')
      with e have "cs = pre' @ q @ suf" by simp
      with Cons.IH have "py_contains q cs" by blast
      then show ?thesis by simp
    qed
  qed
qed

lemma py_contains_ci: "py_contains (py_lower q) (py_lower s) \<longleftrightarrow> ci_substring q s"
proof
  assume "py_contains (py_lower q) (py_lower s)"
  then obtain a b where "py_lower s = a @ py_lower q @ b"
    by (auto simp: py_contains_iff)
  then obtain pre rest where s: "s = pre @ rest" and "py_lower rest = py_lower q @ b"
    unfolding py_lower_def by (metis map_eq_append_conv)
  then obtain mid suf where "rest = mid @ suf" "py_lower mid = py_lower q"
    unfolding py_lower_def by (metis map_eq_append_conv)
  with s show "ci_substring q s" unfolding ci_substring_def by blast
next
  assume "ci_substring q s"
  then obtain pre mid suf where "s = pre @ mid @ suf" "py_lower mid = py_lower q"
    unfolding ci_substring_def by blast
  then have "py_lower s = py_lower pre @ py_lower q @ py_lower suf"
    by (simp add: py_lower_append)
  then show "py_contains (py_lower q) (py_lower s)"
    unfolding py_contains_iff by blast
qed

lemma matching_tags_filter:
  assumes "\<forall>t\<in>set tags. py_getitem t ''name'' = Inr (JStr (nm t))"
  shows "matching_tags (py_lower q) tags = Inr (filter (\<lambda>t. ci_substring q (nm t)) tags)"
  using assms by (induction tags) (simp_all add: py_contains_ci)

lemma ci_substring_empty: "ci_substring [] s"
  unfolding ci_substring_def by (rule exI[of _ s], rule exI[of _ "[]"], rule exI[of _ "[]"])
    (simp add: py_lower_def)

lemma tags_page:
  assumes "get_forum_url forum = Inr u"
    and "post u (request_payload qry vars) = Inr resp"
    and "\<not> (400 \<le> status_code resp \<and> status_code resp < 600)"
    and "body_json resp = Inr (JObj [(''data'', JObj [(''tags'', JObj [(''results'', JArr tags)])])])"
  shows "bind_r (graphql_query post repr qry vars forum) (\<lambda>data.
         bind_r (py_get data ''tags'' (JObj [])) (\<lambda>d.
         bind_r (py_get d ''results'' (JArr [])) (\<lambda>tags.
         bind_r (py_iter tags) k))) = k tags"
proof -
  have "raise_for_status resp = Inr ()"
    using assms(3) by (auto simp: raise_for_status_def)
  then show ?thesis
    using assms(1,2,4) by (simp add: graphql_query_def)
qed

text \<open>\<^bold>\<open>C5.\<close> \<^verbatim>\<open>search_tags\<close> sends the \<^verbatim>\<open>tags\<close> query with \<^verbatim>\<open>limit\<close> 200. When the answer is
  a page \<open>tags\<close> whose tags have string names (\<open>nm t\<close>), and the caller's limit is not
  negative, it returns the first \<open>limit\<close> of the tags whose name contains the query as a
  case-insensitive substring, in the order of the page; with the empty query these are
  the first \<open>limit\<close> tags of the page.\<close>

theorem search_tags_substring:
  assumes "get_forum_url forum = Inr u"
    and "post u (request_payload SearchTags (Some [(''limit'', JInt 200)])) = Inr resp"
    and "\<not> (400 \<le> status_code resp \<and> status_code resp < 600)"
    and "body_json resp = Inr (JObj [(''data'', JObj [(''tags'', JObj [(''results'', JArr tags)])])])"
    and "\<forall>t\<in>set tags. py_getitem t ''name'' = Inr (JStr (nm t))"
    and "0 \<le> limit"
  shows "search_tags post repr q limit forum
           = Inr (take (nat limit) (filter (\<lambda>t. ci_substring q (nm t)) tags))
         \<and> search_tags post repr [] limit forum = Inr (take (nat limit) tags)"
proof -
  have run: "search_tags post repr x limit forum
           = Inr (take (nat limit) (filter (\<lambda>t. ci_substring x (nm t)) tags))" for x
    unfolding search_tags_def
    by (simp add: tags_page[where post=post, OF assms(1-4)] matching_tags_filter[OF assms(5)]
        py_slice_to_def assms(6))
  show ?thesis
    using run[of q] run[of "[]"] by (simp add: ci_substring_empty)
qed

lemmas sample_tags_eval = tag_ai_safety_def tag_rationality_def tag_safety_culture_def

lemma sample_tags_distinct:
  "tag_ai_safety \<noteq> tag_rationality" "tag_safety_culture \<noteq> tag_rationality"
  "tag_safety_culture \<noteq> tag_ai_safety"
  by (simp_all add: sample_tags_eval)

theorem search_tags_substring_witness:
  "search_tags (constant_post tags_response) sample_repr ''SAFETY'' 1 ''lesswrong''
     = Inr [tag_ai_safety]
   \<and> search_tags (constant_post tags_response) sample_repr ''SAFETY'' 5 ''lesswrong''
     = Inr [tag_ai_safety, tag_safety_culture]
   \<and> search_tags (constant_post tags_response) sample_repr [] 2 ''lesswrong''
     = Inr [tag_rationality, tag_ai_safety]"
proof -
  let ?tags = "[tag_rationality, tag_ai_safety, tag_safety_culture]"
  let ?nm = "\<lambda>t. if t = tag_rationality then ''Rationality''
                 else if t = tag_ai_safety then ''AI Safety'' else ''Safety culture''"
  have page: "constant_post tags_response ''https://www.lesswrong.com/graphql''
                (request_payload SearchTags (Some [(''limit'', JInt 200)])) = Inr tags_response"
    by (simp add: constant_post_def)
  have ok: "\<not> (400 \<le> status_code tags_response \<and> status_code tags_response < 600)"
    by (simp add: tags_response_def)
  have body: "body_json tags_response
                = Inr (JObj [(''data'', JObj [(''tags'', JObj [(''results'', JArr ?tags)])])])"
    by (simp add: tags_response_def)
  have names: "\<forall>t\<in>set ?tags. py_getitem t ''name'' = Inr (JStr (?nm t))"
    by (simp add: sample_tags_distinct) (simp add: sample_tags_eval)
  have hits: "filter (\<lambda>t. ci_substring ''SAFETY'' (?nm t)) ?tags
                = [tag_ai_safety, tag_safety_culture]"
    by (simp add: sample_tags_distinct py_contains_ci[symmetric] py_string_eval)
  have one: "search_tags (constant_post tags_response) sample_repr ''SAFETY'' 1 ''lesswrong''
     = Inr [tag_ai_safety]"
    using search_tags_substring [where post="constant_post tags_response" and q="''SAFETY''"
        and limit=1 and repr=sample_repr, OF get_forum_url_canonical(1) page ok body names]
    unfolding hits by simp
  have five: "search_tags (constant_post tags_response) sample_repr ''SAFETY'' 5 ''lesswrong''
     = Inr [tag_ai_safety, tag_safety_culture]"
    using search_tags_substring [where post="constant_post tags_response" and q="''SAFETY''"
        and limit=5 and repr=sample_repr, OF get_forum_url_canonical(1) page ok body names]
    unfolding hits by simp
  have two: "search_tags (constant_post tags_response) sample_repr [] 2 ''lesswrong''
     = Inr [tag_rationality, tag_ai_safety]"
    using search_tags_substring [where post="constant_post tags_response" and q="''SAFETY''"
        and limit=2 and repr=sample_repr, OF get_forum_url_canonical(1) page ok body names]
    unfolding hits by simp
  from one five two show ?thesis by simp
qed

lemma find_tag_find:
  assumes "\<forall>t\<in>set tags. py_get t ''slug'' (JStr []) = Inr (JStr (sl t))"
  shows "find_tag slug (py_lower slug) tags =
           (case find (\<lambda>t. py_lower (sl t) = py_lower slug) tags of
              Some t \<Rightarrow> Inr t
            | None \<Rightarrow> Inl (Exception (''Tag/topic not found: '' @ slug)))"
  using assms by (induction tags) simp_all

text \<open>\<^bold>\<open>C6.\<close> \<^verbatim>\<open>get_tag_by_slug\<close> sends the \<^verbatim>\<open>tags\<close> query with \<^verbatim>\<open>limit\<close> 500. When the
  answer is a page \<open>tags\<close> whose tags have string slugs (\<open>sl t\<close>), it returns the first tag
  of the page whose slug equals the request up to letter case, and raises the not-found
  exception when the page has none.\<close>

theorem get_tag_by_slug_first_match:
  assumes "get_forum_url forum = Inr u"
    and "post u (request_payload GetTags (Some [(''limit'', JInt 500)])) = Inr resp"
    and "\<not> (400 \<le> status_code resp \<and> status_code resp < 600)"
    and "body_json resp = Inr (JObj [(''data'', JObj [(''tags'', JObj [(''results'', JArr tags)])])])"
    and "\<forall>t\<in>set tags. py_get t ''slug'' (JStr []) = Inr (JStr (sl t))"
  shows "get_tag_by_slug post repr slug forum =
           (case find (\<lambda>t. py_lower (sl t) = py_lower slug) tags of
              Some t \<Rightarrow> Inr t
            | None \<Rightarrow> Inl (Exception (''Tag/topic not found: '' @ slug)))"
  unfolding get_tag_by_slug_def
  by (simp add: tags_page[where post=post, OF assms(1-4)] find_tag_find[OF assms(5)])

theorem get_tag_by_slug_first_match_witness:
  "get_tag_by_slug (constant_post tags_response) sample_repr ''AI-Safety'' ''lesswrong''
     = Inr tag_ai_safety
   \<and> get_tag_by_slug (constant_post tags_response) sample_repr ''forecasting'' ''lesswrong''
     = Inl (Exception ''Tag/topic not found: forecasting'')"
proof -
  let ?tags = "[tag_rationality, tag_ai_safety, tag_safety_culture]"
  let ?sl = "\<lambda>t. if t = tag_rationality then ''rationality''
                 else if t = tag_ai_safety then ''ai-safety'' else ''AI-Safety''"
  have page: "constant_post tags_response ''https://www.lesswrong.com/graphql''
                (request_payload GetTags (Some [(''limit'', JInt 500)])) = Inr tags_response"
    by (simp add: constant_post_def)
  have ok: "\<not> (400 \<le> status_code tags_response \<and> status_code tags_response < 600)"
    by (simp add: tags_response_def)
  have body: "body_json tags_response
                = Inr (JObj [(''data'', JObj [(''tags'', JObj [(''results'', JArr ?tags)])])])"
    by (simp add: tags_response_def)
  have slugs: "\<forall>t\<in>set ?tags. py_get t ''slug'' (JStr []) = Inr (JStr (?sl t))"
    by (simp add: sample_tags_distinct) (simp add: sample_tags_eval)
  have hit: "find (\<lambda>t. py_lower (?sl t) = py_lower ''AI-Safety'') ?tags = Some tag_ai_safety"
    by (simp add: sample_tags_distinct py_string_eval)
  have miss: "find (\<lambda>t. py_lower (?sl t) = py_lower ''forecasting'') ?tags = None"
    by (simp add: sample_tags_distinct py_string_eval)
  have found: "get_tag_by_slug (constant_post tags_response) sample_repr ''AI-Safety''
      ''lesswrong'' = Inr tag_ai_safety"
    using get_tag_by_slug_first_match [where post="constant_post tags_response"
        and slug="''AI-Safety''" and repr=sample_repr,
        OF get_forum_url_canonical(1) page ok body slugs]
    unfolding hit by simp
  have absent: "get_tag_by_slug (constant_post tags_response) sample_repr ''forecasting''
      ''lesswrong'' = Inl (Exception ''Tag/topic not found: forecasting'')"
    using get_tag_by_slug_first_match [where post="constant_post tags_response"
        and slug="''forecasting''" and repr=sample_repr,
        OF get_forum_url_canonical(1) page ok body slugs]
    unfolding miss by simp
  from found absent show ?thesis by simp
qed

subsection \<open>Activity reports\<close>

lemma filter_by_date_since_all:
  assumes "filter_by_date f (Some since) posts = Inr r"
  shows "\<exists>ps. r = JArr ps \<and> (\<forall>p\<in>set ps. on_or_after f since p)"
proof -
  from assms obtain items where "r = JArr (filter (on_or_after f since) items)"
    by (rule filter_by_date_Inr)
  then show ?thesis by simp
qed

lemma get_user_posts_since:
  assumes "get_user_posts post repr f uid (Some since) lim forum = Inr r"
  shows "\<exists>ps. r = JArr ps \<and> (\<forall>p\<in>set ps. on_or_after f since p)"
  using assms unfolding get_user_posts_def bind_r_eq_Inr
  by (blast dest: filter_by_date_since_all)

lemma get_user_comments_since:
  assumes "get_user_comments post repr f uid (Some since) lim forum = Inr r"
  shows "\<exists>ps. r = JArr ps \<and> (\<forall>p\<in>set ps. on_or_after f since p)"
  using assms unfolding get_user_comments_def bind_r_eq_Inr
  by (blast dest: filter_by_date_since_all)

lemma get_posts_by_tag_since:
  assumes "get_posts_by_tag post repr f tid (Some since) lim forum = Inr r"
  shows "\<exists>ps. r = JArr ps \<and> (\<forall>p\<in>set ps. on_or_after f since p)"
  using assms unfolding get_posts_by_tag_def bind_r_eq_Inr
  by (blast dest: filter_by_date_since_all)

lemma minus_days_Aware:
  assumes "minus_days (Aware t off) n = Inr d"
  shows "d = Aware (t - n * day_us) off"
  using assms by (simp add: minus_days_def Let_def split: if_splits)

lemma fetch_user_activity_Inr:
  assumes "fetch_user_activity post repr f clk k slug days forum = Inr (r, k')"
  shows "ua_since_date r = Aware (fst (clk k) - days * day_us) (snd (clk k))"
    and "ua_fetched_at r = Naive (fst (clk (Suc k)) + snd (clk (Suc k)))"
    and "\<exists>ps. ua_posts r = JArr ps \<and> (\<forall>p\<in>set ps. on_or_after f (ua_since_date r) p)"
    and "\<exists>cs. ua_comments r = JArr cs \<and> (\<forall>c\<in>set cs. on_or_after f (ua_since_date r) c)"
proof -
  from assms obtain user since_date user_id posts user_id' comments where
    s: "minus_days (Aware (fst (clk k)) (snd (clk k))) days = Inr since_date"
    and p: "get_user_posts post repr f user_id (Some since_date) 50 forum = Inr posts"
    and c: "get_user_comments post repr f user_id' (Some since_date) 100 forum = Inr comments"
    and r: "r = \<lparr>ua_forum = forum, ua_user = user, ua_posts = posts, ua_comments = comments,
                  ua_since_date = since_date,
                  ua_fetched_at = Naive (fst (clk (Suc k)) + snd (clk (Suc k)))\<rparr>"
    unfolding fetch_user_activity_def datetime_now_astimezone_def datetime_now_def
      bind_r_eq_Inr prod.case
    by auto
  show "ua_since_date r = Aware (fst (clk k) - days * day_us) (snd (clk k))"
    using minus_days_Aware[OF s] r by simp
  show "ua_fetched_at r = Naive (fst (clk (Suc k)) + snd (clk (Suc k)))"
    using r by simp
  show "\<exists>ps. ua_posts r = JArr ps \<and> (\<forall>p\<in>set ps. on_or_after f (ua_since_date r) p)"
    using get_user_posts_since[OF p] r by simp
  show "\<exists>cs. ua_comments r = JArr cs \<and> (\<forall>c\<in>set cs. on_or_after f (ua_since_date r) c)"
    using get_user_comments_since[OF c] r by simp
qed

lemma fetch_topic_activity_Inr:
  assumes "fetch_topic_activity post repr f clk k slug days forum = Inr (r, k')"
  shows "ta_since_date r = Aware (fst (clk k) - days * day_us) (snd (clk k))"
    and "ta_fetched_at r = Naive (fst (clk (Suc k)) + snd (clk (Suc k)))"
    and "\<exists>ps. ta_posts r = JArr ps \<and> (\<forall>p\<in>set ps. on_or_after f (ta_since_date r) p)"
proof -
  from assms obtain tag since_date tag_id posts where
    s: "minus_days (Aware (fst (clk k)) (snd (clk k))) days = Inr since_date"
    and p: "get_posts_by_tag post repr f tag_id (Some since_date) 50 forum = Inr posts"
    and r: "r = \<lparr>ta_forum = forum, ta_topic = tag, ta_posts = posts,
                  ta_since_date = since_date,
                  ta_fetched_at = Naive (fst (clk (Suc k)) + snd (clk (Suc k)))\<rparr>"
    unfolding fetch_topic_activity_def datetime_now_astimezone_def datetime_now_def
      bind_r_eq_Inr prod.case
    by auto
  show "ta_since_date r = Aware (fst (clk k) - days * day_us) (snd (clk k))"
    using minus_days_Aware[OF s] r by simp
  show "ta_fetched_at r = Naive (fst (clk (Suc k)) + snd (clk (Suc k)))"
    using r by simp
  show "\<exists>ps. ta_posts r = JArr ps \<and> (\<forall>p\<in>set ps. on_or_after f (ta_since_date r) p)"
    using get_posts_by_tag_since[OF p] r by simp
qed

lemma sample_graphql_query:
  "graphql_query sample_post repr GetUser vars ''lesswrong''
     = Inr (JObj [(''user'', JObj [(''result'', sample_user)])])"
  "graphql_query sample_post repr GetUserPosts vars ''lesswrong''
     = Inr (JObj [(''posts'', JObj [(''results'', JArr [old_post, new_post])])])"
  "graphql_query sample_post repr GetUserComments vars ''lesswrong''
     = Inr (JObj [(''comments'', JObj [(''results'', JArr [new_post, old_post, new_post])])])"
  "graphql_query sample_post repr GetTagPosts vars ''lesswrong''
     = Inr (JObj [(''posts'', JObj [(''results'', JArr [new_post, old_post])])])"
  "graphql_query sample_post repr GetTags vars ''lesswrong''
     = Inr (JObj [(''tags'', JObj [(''results'',
              JArr [tag_rationality, tag_ai_safety, tag_safety_culture])])])"
  by (simp_all add: graphql_query_def get_forum_url_canonical sample_post_def
      request_payload_def raise_for_status_def results_response_def tags_response_def)

lemma sample_user_fields:
  "py_truthy sample_user" "py_getitem sample_user ''_id'' = Inr (JStr ''u1'')"
  by (simp_all add: sample_user_def)

lemma sample_since:
  "minus_days (Aware 1704844800000000 0) 7 = Inr (Aware 1704240000000000 0)"
  by (simp add: minus_days_def day_us_def)

lemma sample_filter:
  "filter_by_date sample_fromisoformat (Some (Aware 1704240000000000 0))
     (JArr [old_post, new_post]) = Inr (JArr [new_post])"
  "filter_by_date sample_fromisoformat (Some (Aware 1704240000000000 0))
     (JArr [new_post, old_post, new_post]) = Inr (JArr [new_post, new_post])"
  "filter_by_date sample_fromisoformat (Some (Aware 1704240000000000 0))
     (JArr [new_post, old_post]) = Inr (JArr [new_post])"
  by (simp_all add: filter_by_date_def posted_at_old posted_at_new)

lemma sample_user_run:
  "fetch_user_activity sample_post sample_repr sample_fromisoformat sample_clock 0
     ''alice'' 7 ''lesswrong'' = Inr (sample_user_activity, 2)"
  by (simp add: fetch_user_activity_def get_user_by_slug_def sample_graphql_query
      sample_user_fields datetime_now_astimezone_def datetime_now_def sample_clock_def
      sample_since get_user_posts_def get_user_comments_def sample_filter
      sample_user_activity_def)

lemma sample_tag_found:
  "get_tag_by_slug sample_post sample_repr ''ai-safety'' ''lesswrong'' = Inr tag_ai_safety"
  by (simp add: get_tag_by_slug_def sample_graphql_query py_string_eval sample_tags_eval)

lemma sample_topic_run:
  "fetch_topic_activity sample_post sample_repr sample_fromisoformat sample_clock 0
     ''ai-safety'' 7 ''lesswrong'' = Inr (sample_topic_activity, 2)"
proof -
  have id: "py_getitem tag_ai_safety ''_id'' = Inr (JStr ''t1'')"
    by (simp add: tag_ai_safety_def)
  show ?thesis
    by (simp add: fetch_topic_activity_def sample_tag_found id
        datetime_now_astimezone_def datetime_now_def sample_clock_def
        sample_since get_posts_by_tag_def sample_graphql_query sample_filter
        sample_topic_activity_def)
qed

text \<open>\<^bold>\<open>C2\<close>, as stated, fails in its first half: the window start is computed from a clock
  reading taken before the requests are sent, and \<^verbatim>\<open>fetched_at\<close> is a second reading taken
  after the answers have arrived. With a clock that advances by a second and a half in
  between, the report's \<^verbatim>\<open>since_date\<close> is not its \<^verbatim>\<open>fetched_at\<close> minus seven days.\<close>

theorem activity_report_window_not_fetch_time:
  "fetch_user_activity sample_post sample_repr sample_fromisoformat sample_clock 0
     ''alice'' 7 ''lesswrong'' = Inr (sample_user_activity, 2)
   \<and> \<not> window_invariant (ua_since_date sample_user_activity)
         (ua_fetched_at sample_user_activity) 7"
  by (simp add: sample_user_run) (simp add: sample_user_activity_def window_invariant_def day_us_def)

text \<open>\<^bold>\<open>C2\<close>, amended. In every report \<^verbatim>\<open>fetch_user_activity\<close> or \<^verbatim>\<open>fetch_topic_activity\<close>
  returns, \<^verbatim>\<open>since_date\<close> is the first clock reading of the call minus the requested days
  (timezone-aware, at the local offset), \<^verbatim>\<open>fetched_at\<close> is the next clock reading (naive
  local time), and the posts and the comments are lists all of whose items are on or
  after \<^verbatim>\<open>since_date\<close>.\<close>

theorem activity_report_window:
  "(fetch_user_activity post repr f clk k slug days forum = Inr (ua, k') \<longrightarrow>
      ua_since_date ua = Aware (fst (clk k) - days * day_us) (snd (clk k))
      \<and> ua_fetched_at ua = Naive (fst (clk (Suc k)) + snd (clk (Suc k)))
      \<and> (\<exists>ps. ua_posts ua = JArr ps \<and> (\<forall>p\<in>set ps. on_or_after f (ua_since_date ua) p))
      \<and> (\<exists>cs. ua_comments ua = JArr cs
               \<and> (\<forall>c\<in>set cs. on_or_after f (ua_since_date ua) c)))
   \<and> (fetch_topic_activity post repr f clk k slug days forum = Inr (ta, k') \<longrightarrow>
      ta_since_date ta = Aware (fst (clk k) - days * day_us) (snd (clk k))
      \<and> ta_fetched_at ta = Naive (fst (clk (Suc k)) + snd (clk (Suc k)))
      \<and> (\<exists>ps. ta_posts ta = JArr ps \<and> (\<forall>p\<in>set ps. on_or_after f (ta_since_date ta) p)))"
  using fetch_user_activity_Inr[of post repr f clk k slug days forum ua k']
    fetch_topic_activity_Inr[of post repr f clk k slug days forum ta k']
  by blast

theorem activity_report_window_witness:
  "ua_since_date sample_user_activity = Aware 1704240000000000 0
   \<and> ua_fetched_at sample_user_activity = Naive 1704844801500000
   \<and> on_or_after sample_fromisoformat (ua_since_date sample_user_activity) new_post
   \<and> ta_since_date sample_topic_activity = Aware 1704240000000000 0
   \<and> ta_fetched_at sample_topic_activity = Naive 1704844801500000
   \<and> on_or_after sample_fromisoformat (ta_since_date sample_topic_activity) new_post"
proof -
  note user = activity_report_window [of sample_post sample_repr sample_fromisoformat
      sample_clock 0 "''alice''" 7 "''lesswrong''" sample_user_activity 2
      sample_topic_activity, THEN conjunct1, rule_format, OF sample_user_run]
  note topic = activity_report_window [of sample_post sample_repr sample_fromisoformat
      sample_clock 0 "''ai-safety''" 7 "''lesswrong''" sample_user_activity 2
      sample_topic_activity, THEN conjunct2, rule_format, OF sample_topic_run]
  have "ua_posts sample_user_activity = JArr [new_post]"
    by (simp add: sample_user_activity_def)
  with user have u: "on_or_after sample_fromisoformat (ua_since_date sample_user_activity) new_post"
    by auto
  have "ta_posts sample_topic_activity = JArr [new_post]"
    by (simp add: sample_topic_activity_def)
  with topic have t: "on_or_after sample_fromisoformat (ta_since_date sample_topic_activity) new_post"
    by auto
  show ?thesis
    using user topic u t by (simp add: sample_clock_def day_us_def)
qed

subsection \<open>Text rendering\<close>

lemma then_do_None [simp]: "then_do (out, None) b = (out @ fst b, snd b)"
  by (simp add: then_do_def)

lemma then_do_Some [simp]: "then_do (out, Some e) b = (out, Some e)"
  by (simp add: then_do_def)

lemma py_print_Inr [simp]: "py_print (Inr s) = ([s], None)"
  by (simp add: py_print_def)

lemma py_print_Inl [simp]: "py_print (Inl e) = ([], Some e)"
  by (simp add: py_print_def)

lemma with_value_Inr [simp]: "with_value (Inr x) g = g x"
  by (simp add: with_value_def)

lemma with_value_Inl [simp]: "with_value (Inl e) g = ([], Some e)"
  by (simp add: with_value_def)

lemma comment_fields_excerpt:
  assumes "bind_r (py_getitem c ''postedAt'') (format_date f strftime) = Inr date"
    and "py_get c ''baseScore'' (JInt 0) = Inr score"
    and "bind_r (py_get c ''post'' (JObj []))
           (\<lambda>p. py_get p ''title'' (JStr ''Unknown post'')) = Inr title"
    and "bind_r (py_get c ''contents'' (JObj []))
           (\<lambda>x. py_getitem x ''plaintextDescription'') = Inr (JStr desc)"
  shows "comment_fields f strftime c = Inr (date, score, title, JStr (take 100 desc))"
proof -
  from assms(4) obtain x where x: "py_get c ''contents'' (JObj []) = Inr x"
    and d: "py_getitem x ''plaintextDescription'' = Inr (JStr desc)"
    by (auto simp: bind_r_eq_Inr)
  from d obtain kv where kv: "x = JObj kv" "map_of kv ''plaintextDescription'' = Some (JStr desc)"
    by (cases x) (auto split: option.splits)
  then have "kv \<noteq> []" by auto
  with kv have "bind_r (py_get (if py_truthy x then x else JObj []) ''plaintextDescription''
                   (JStr [])) (\<lambda>d. py_prefix d 100) = Inr (JStr (take 100 desc))"
    by simp
  with assms(1-3) x show ?thesis
    by (simp add: comment_fields_def)
qed

lemma print_comments_entries:
  assumes "\<forall>c\<in>set cs.
             bind_r (py_getitem c ''postedAt'') (format_date f strftime) = Inr (dt c)
           \<and> py_get c ''baseScore'' (JInt 0) = Inr (sc c)
           \<and> bind_r (py_get c ''post'' (JObj []))
                (\<lambda>p. py_get p ''title'' (JStr ''Unknown post'')) = Inr (ti c)
           \<and> bind_r (py_get c ''contents'' (JObj []))
                (\<lambda>x. py_getitem x ''plaintextDescription'') = Inr (JStr (desc c))
           \<and> py_get c ''pageUrl'' (JStr []) = Inr (pu c)"
  shows "print_comments repr f strftime cs =
           (concat (map (\<lambda>c.
              [''  ['' @ dt c @ ''] On: '' @ py_format repr (ti c) @ '' (score: ''
                 @ py_format repr (sc c) @ '')'',
               ''    '' @ [CHR 0x22] @ take 100 (desc c) @ ''...'' @ [CHR 0x22],
               ''    '' @ py_format repr (pu c)]) cs), None)"
  using assms
proof (induction cs)
  case Nil
  then show ?case by simp
next
  case (Cons c cs)
  then have fields: "comment_fields f strftime c
                       = Inr (dt c, sc c, ti c, JStr (take 100 (desc c)))"
    by (intro comment_fields_excerpt) simp_all
  have url: "py_get c ''pageUrl'' (JStr []) = Inr (pu c)"
    using Cons.prems by simp
  have rest: "print_comments repr f strftime cs =
           (concat (map (\<lambda>c.
              [''  ['' @ dt c @ ''] On: '' @ py_format repr (ti c) @ '' (score: ''
                 @ py_format repr (sc c) @ '')'',
               ''    '' @ [CHR 0x22] @ take 100 (desc c) @ ''...'' @ [CHR 0x22],
               ''    '' @ py_format repr (pu c)]) cs), None)"
    using Cons by simp
  show ?case
    by (simp add: fields url rest)
qed

lemma print_comments_block_list:
  assumes "print_comments repr f strftime (take 10 cs) = (entries, None)"
  shows "print_comments_block repr f strftime (JArr cs) =
           ([CHR 0x0A # ''Comments ('' @ show_nat (length cs) @ ''):'']
            @ (if cs = [] then [''  No comments in this period.'']
               else entries
                    @ (if 10 < length cs
                       then [''  ... and '' @ show_nat (length cs - 10) @ '' more comments'']
                       else [])), None)"
  using assms by (simp add: print_comments_block_def)

text \<open>\<^bold>\<open>C9.\<close> Let the profile and the posts of a report print normally (as \<open>pre\<close>), let its
  comments be a list \<open>cs\<close>, and let each of the first ten comments have a readable date, a
  post title and a plaintext description \<open>desc c\<close>. Then the text rendering is \<open>pre\<close>, the
  line \<^verbatim>\<open>Comments (n):\<close>, three lines for each of the first ten comments and for no other,
  the middle one quoting the first 100 characters of \<open>desc c\<close> followed by three dots, then,
  exactly when \<open>n > 10\<close>, the one line \<^verbatim>\<open>... and (n-10) more comments\<close>, and the closing empty
  line.\<close>

theorem print_user_activity_comment_cap:
  assumes "print_profile_and_posts repr f strftime act = (pre, None)"
    and "ua_comments act = JArr cs"
    and "\<forall>c\<in>set (take 10 cs).
             bind_r (py_getitem c ''postedAt'') (format_date f strftime) = Inr (dt c)
           \<and> py_get c ''baseScore'' (JInt 0) = Inr (sc c)
           \<and> bind_r (py_get c ''post'' (JObj []))
                (\<lambda>p. py_get p ''title'' (JStr ''Unknown post'')) = Inr (ti c)
           \<and> bind_r (py_get c ''contents'' (JObj []))
                (\<lambda>x. py_getitem x ''plaintextDescription'') = Inr (JStr (desc c))
           \<and> py_get c ''pageUrl'' (JStr []) = Inr (pu c)"
  shows "print_user_activity repr f strftime act =
           (pre
            @ [CHR 0x0A # ''Comments ('' @ show_nat (length cs) @ ''):'']
            @ (if cs = [] then [''  No comments in this period.'']
               else concat (map (\<lambda>c.
                      [''  ['' @ dt c @ ''] On: '' @ py_format repr (ti c) @ '' (score: ''
                         @ py_format repr (sc c) @ '')'',
                       ''    '' @ [CHR 0x22] @ take 100 (desc c) @ ''...'' @ [CHR 0x22],
                       ''    '' @ py_format repr (pu c)]) (take 10 cs))
                    @ (if 10 < length cs
                       then [''  ... and '' @ show_nat (length cs - 10) @ '' more comments'']
                       else []))
            @ [[]], None)"
  by (simp add: print_user_activity_def assms(1,2)
      print_comments_block_list[OF print_comments_entries[OF assms(3)]])

lemma show_nat_small: "show_nat 0 = ''0''" "show_nat 2 = ''2''" "show_nat 12 = ''12''"
  by (simp_all add: show_nat.simps char_of_def bit_Suc_0_iff)

lemma busy_profile_and_posts:
  "print_profile_and_posts sample_repr sample_fromisoformat sample_strftime busy_user_activity =
     ([CHR 0x0A # replicate 60 (CHR ''=''), ''[LessWrong] Alice (@alice)'', ''Karma: 500'',
       replicate 60 (CHR ''=''), CHR 0x0A # ''Posts (0):'', ''  No posts in this period.''],
      None)"
  by (simp add: print_profile_and_posts_def busy_user_activity_def sample_user_def FORUMS_def
      show_nat_small show_int_def show_nat.simps char_of_def bit_Suc_0_iff)

lemma sample_comment_fields:
  "bind_r (py_getitem sample_comment ''postedAt'')
     (format_date sample_fromisoformat sample_strftime) = Inr ''Jan 09, 2024''"
  "py_get sample_comment ''baseScore'' (JInt 0) = Inr (JInt 3)"
  "bind_r (py_get sample_comment ''post'' (JObj []))
     (\<lambda>p. py_get p ''title'' (JStr ''Unknown post'')) = Inr (JStr ''New'')"
  "bind_r (py_get sample_comment ''contents'' (JObj []))
     (\<lambda>x. py_getitem x ''plaintextDescription'') = Inr (JStr (replicate 120 (CHR ''x'')))"
  "py_get sample_comment ''pageUrl'' (JStr []) = Inr (JStr ''https://www.lesswrong.com/c1'')"
  by (simp_all add: sample_comment_def format_date_def replace_Z_def sample_fromisoformat_def
      sample_strftime_def)

theorem print_user_activity_comment_cap_witness:
  "print_user_activity sample_repr sample_fromisoformat sample_strftime busy_user_activity =
     ([CHR 0x0A # replicate 60 (CHR ''=''), ''[LessWrong] Alice (@alice)'', ''Karma: 500'',
       replicate 60 (CHR ''=''), CHR 0x0A # ''Posts (0):'', ''  No posts in this period.'',
       CHR 0x0A # ''Comments (12):'']
      @ concat (replicate 10
          [''  [Jan 09, 2024] On: New (score: 3)'',
           ''    '' @ [CHR 0x22] @ replicate 100 (CHR ''x'') @ ''...'' @ [CHR 0x22],
           ''    https://www.lesswrong.com/c1''])
      @ [''  ... and 2 more comments'', []], None)"
proof -
  have comments: "ua_comments busy_user_activity = JArr (replicate 12 sample_comment)"
    by (simp add: busy_user_activity_def)
  have shown: "take 10 (replicate 12 sample_comment) = replicate 10 sample_comment"
    by simp
  have wf: "\<forall>c\<in>set (take 10 (replicate 12 sample_comment)).
             bind_r (py_getitem c ''postedAt'') (format_date sample_fromisoformat sample_strftime)
               = Inr ((\<lambda>c. ''Jan 09, 2024'') c)
           \<and> py_get c ''baseScore'' (JInt 0) = Inr ((\<lambda>c. JInt 3) c)
           \<and> bind_r (py_get c ''post'' (JObj []))
                (\<lambda>p. py_get p ''title'' (JStr ''Unknown post'')) = Inr ((\<lambda>c. JStr ''New'') c)
           \<and> bind_r (py_get c ''contents'' (JObj []))
                (\<lambda>x. py_getitem x ''plaintextDescription'')
               = Inr (JStr ((\<lambda>c. replicate 120 (CHR ''x'')) c))
           \<and> py_get c ''pageUrl'' (JStr [])
               = Inr ((\<lambda>c. JStr ''https://www.lesswrong.com/c1'') c)"
    unfolding shown by (simp add: sample_comment_fields)
  have len: "length (replicate 12 sample_comment) = 12" "replicate 12 sample_comment \<noteq> []"
    by simp_all
  show ?thesis
    using print_user_activity_comment_cap [OF busy_profile_and_posts comments wf]
    unfolding shown len
    by (simp add: show_nat_small show_int_def show_nat.simps char_of_def bit_Suc_0_iff
        map_replicate_const)
qed

end
